theory Spec2Isabelle
  imports Complex_Main "HOL-Library.Monad_Syntax"
begin

section \<open>Numbers and vectors\<close>

text \<open>
  The simulation kernel is \<^verbatim>\<open>bird.js\<close> (class \<^verbatim>\<open>Boid\<close>) driven by the frame loop
  of \<^verbatim>\<open>main.js\<close>. JavaScript numbers are modelled as real numbers: rounding and
  overflow of IEEE doubles are left out, so a bound proved here is the bound the
  program meets up to floating-point tolerance.
\<close>

text \<open>
  Modelled from the spec: the vector primitives (add, subtract, scale, normalize,
  length-clamp), which the specification assumes available. In the program they
  are the methods of \<^verbatim>\<open>THREE.Vector3\<close> from the three.js library, which is not
  among the repository's sources. Each is written here as the library defines
  it, the JavaScript given beside it; a method that mutates its receiver is a
  function returning the new vector. Normalising the zero vector returns the zero
  vector, as the specification asks of a zero-length normalisation.
\<close>

record Vector3 =
  x :: real
  y :: real
  z :: real

definition Vector3_new :: Vector3 where
  \<comment> \<open>\<^verbatim>\<open>new THREE.Vector3()\<close>\<close>
  "Vector3_new = \<lparr>x = 0, y = 0, z = 0\<rparr>"

definition js_or :: "real \<Rightarrow> real \<Rightarrow> real" where
  \<comment> \<open>\<^verbatim>\<open>a || b\<close> on numbers: \<^verbatim>\<open>b\<close> when \<^verbatim>\<open>a\<close> is falsy, which for a real is zero\<close>
  "js_or a b = (if a = 0 then b else a)"

definition add :: "Vector3 \<Rightarrow> Vector3 \<Rightarrow> Vector3" where
  "add v w = \<lparr>x = x v + x w, y = y v + y w, z = z v + z w\<rparr>"

definition sub :: "Vector3 \<Rightarrow> Vector3 \<Rightarrow> Vector3" where
  "sub v w = \<lparr>x = x v - x w, y = y v - y w, z = z v - z w\<rparr>"

definition subVectors :: "Vector3 \<Rightarrow> Vector3 \<Rightarrow> Vector3" where
  \<comment> \<open>\<^verbatim>\<open>new THREE.Vector3().subVectors(a, b)\<close>\<close>
  "subVectors a b = \<lparr>x = x a - x b, y = y a - y b, z = z a - z b\<rparr>"

definition multiplyScalar :: "Vector3 \<Rightarrow> real \<Rightarrow> Vector3" where
  "multiplyScalar v s = \<lparr>x = x v * s, y = y v * s, z = z v * s\<rparr>"

definition divideScalar :: "Vector3 \<Rightarrow> real \<Rightarrow> Vector3" where
  \<comment> \<open>Modelled from the spec: \<^verbatim>\<open>Vector3.divideScalar\<close> of three.js,
      \<^verbatim>\<open>return this.multiplyScalar(1 / scalar)\<close>\<close>
  "divideScalar v s = multiplyScalar v (1 / s)"

definition lengthSq :: "Vector3 \<Rightarrow> real" where
  "lengthSq v = x v * x v + y v * y v + z v * z v"

definition length_v :: "Vector3 \<Rightarrow> real" where
  \<comment> \<open>\<^verbatim>\<open>Vector3.length()\<close>\<close>
  "length_v v = sqrt (x v * x v + y v * y v + z v * z v)"

definition distanceToSquared :: "Vector3 \<Rightarrow> Vector3 \<Rightarrow> real" where
  "distanceToSquared v w =
     (let dx = x v - x w; dy = y v - y w; dz = z v - z w
      in dx * dx + dy * dy + dz * dz)"

definition distanceTo :: "Vector3 \<Rightarrow> Vector3 \<Rightarrow> real" where
  "distanceTo v w = sqrt (distanceToSquared v w)"

definition normalize :: "Vector3 \<Rightarrow> Vector3" where
  \<comment> \<open>Modelled from the spec: \<^verbatim>\<open>Vector3.normalize\<close> of three.js,
      \<^verbatim>\<open>return this.divideScalar(this.length() || 1)\<close>\<close>
  "normalize v = divideScalar v (js_or (length_v v) 1)"

definition setLength :: "Vector3 \<Rightarrow> real \<Rightarrow> Vector3" where
  \<comment> \<open>Modelled from the spec: \<^verbatim>\<open>Vector3.setLength\<close> of three.js,
      \<^verbatim>\<open>return this.normalize().multiplyScalar(length)\<close>\<close>
  "setLength v l = multiplyScalar (normalize v) l"

definition clampLength :: "Vector3 \<Rightarrow> real \<Rightarrow> real \<Rightarrow> Vector3" where
  \<comment> \<open>Modelled from the spec: \<^verbatim>\<open>Vector3.clampLength\<close> of three.js,
      \<^verbatim>\<open>const length = this.length();
      return this.divideScalar(length || 1).multiplyScalar(Math.max(min, Math.min(max, length)))\<close>\<close>
  "clampLength v mn mx =
     (let l = length_v v
      in multiplyScalar (divideScalar v (js_or l 1)) (max mn (min mx l)))"

section \<open>Orientation\<close>

text \<open>
  Modelled from the spec: the facing direction, which the specification derives by
  looking from the position towards the position plus the velocity. In the program
  it is \<^verbatim>\<open>Object3D.lookAt\<close> of three.js with the methods of \<^verbatim>\<open>Matrix4\<close> and
  \<^verbatim>\<open>Quaternion\<close> it calls, written here as the library defines them.

  A quaternion has the fields \<^verbatim>\<open>_x\<close>, \<^verbatim>\<open>_y\<close>, \<^verbatim>\<open>_z\<close>, \<^verbatim>\<open>_w\<close>. Of a
  \<^verbatim>\<open>Matrix4\<close> the upper left 3 by 3 block is kept, with the names
  \<^verbatim>\<open>setFromRotationMatrix\<close> gives its entries: \<open>m11 = te[0]\<close>, \<open>m12 = te[4]\<close>,
  \<open>m13 = te[8]\<close>, \<open>m21 = te[1]\<close>, \<open>m22 = te[5]\<close>, \<open>m23 = te[9]\<close>,
  \<open>m31 = te[2]\<close>, \<open>m32 = te[6]\<close>, \<open>m33 = te[10]\<close>. The methods below read
  no other entry.
\<close>

record Quaternion =
  qx :: real
  qy :: real
  qz :: real
  qw :: real

record Matrix4 =
  m11 :: real
  m12 :: real
  m13 :: real
  m21 :: real
  m22 :: real
  m23 :: real
  m31 :: real
  m32 :: real
  m33 :: real

definition crossVectors :: "Vector3 \<Rightarrow> Vector3 \<Rightarrow> Vector3" where
  "crossVectors a b =
     \<lparr>x = y a * z b - z a * y b, y = z a * x b - x a * z b, z = x a * y b - y a * x b\<rparr>"

text \<open>
  \<^verbatim>\<open>Matrix4.lookAt(eye, target, up)\<close>:
  \<^verbatim>\<open>
  _z.subVectors(eye, target);
  if (_z.lengthSq() === 0) { _z.z = 1; }   // eye and target are in the same position
  _z.normalize();
  _x.crossVectors(up, _z);
  if (_x.lengthSq() === 0) {               // up and z are parallel
    if (Math.abs(up.z) === 1) { _z.x += 0.0001; } else { _z.z += 0.0001; }
    _z.normalize();
    _x.crossVectors(up, _z);
  }
  _x.normalize();
  _y.crossVectors(_z, _x);
  te[0] = _x.x; te[4] = _y.x; te[8] = _z.x;
  te[1] = _x.y; te[5] = _y.y; te[9] = _z.y;
  te[2] = _x.z; te[6] = _y.z; te[10] = _z.z;
  \<close>
\<close>

definition Matrix4_lookAt :: "Vector3 \<Rightarrow> Vector3 \<Rightarrow> Vector3 \<Rightarrow> Matrix4" where
  \<comment> \<open>Modelled from the spec: \<^verbatim>\<open>Matrix4.lookAt\<close> of three.js, quoted above\<close>
  "Matrix4_lookAt eye target up_v =
     (let zv = subVectors eye target;
          zv = (if lengthSq zv = 0 then zv\<lparr>z := 1\<rparr> else zv);
          zv = normalize zv;
          xv = crossVectors up_v zv;
          zv = (if lengthSq xv = 0
                then normalize (if \<bar>z up_v\<bar> = 1 then zv\<lparr>x := x zv + 0.0001\<rparr>
                                else zv\<lparr>z := z zv + 0.0001\<rparr>)
                else zv);
          xv = (if lengthSq xv = 0 then crossVectors up_v zv else xv);
          xv = normalize xv;
          yv = crossVectors zv xv
      in \<lparr>m11 = x xv, m12 = x yv, m13 = x zv,
          m21 = y xv, m22 = y yv, m23 = y zv,
          m31 = z xv, m32 = z yv, m33 = z zv\<rparr>)"

text \<open>
  \<^verbatim>\<open>Quaternion.setFromRotationMatrix(m)\<close>, with \<open>trace = m11 + m22 + m33\<close>:
  \<^verbatim>\<open>
  if (trace > 0) {
    const s = 0.5 / Math.sqrt(trace + 1.0);
    this._w = 0.25 / s;
    this._x = (m32 - m23) * s; this._y = (m13 - m31) * s; this._z = (m21 - m12) * s;
  } else if (m11 > m22 && m11 > m33) {
    const s = 2.0 * Math.sqrt(1.0 + m11 - m22 - m33);
    this._w = (m32 - m23) / s;
    this._x = 0.25 * s; this._y = (m12 + m21) / s; this._z = (m13 + m31) / s;
  } else if (m22 > m33) {
    const s = 2.0 * Math.sqrt(1.0 + m22 - m11 - m33);
    this._w = (m13 - m31) / s;
    this._x = (m12 + m21) / s; this._y = 0.25 * s; this._z = (m23 + m32) / s;
  } else {
    const s = 2.0 * Math.sqrt(1.0 + m33 - m11 - m22);
    this._w = (m21 - m12) / s;
    this._x = (m13 + m31) / s; this._y = (m23 + m32) / s; this._z = 0.25 * s;
  }
  \<close>
\<close>

definition setFromRotationMatrix :: "Matrix4 \<Rightarrow> Quaternion" where
  \<comment> \<open>Modelled from the spec: \<^verbatim>\<open>Quaternion.setFromRotationMatrix\<close> of three.js,
      quoted above\<close>
  "setFromRotationMatrix m =
     (let tr = m11 m + m22 m + m33 m
      in if tr > 0 then
           (let s = 0.5 / sqrt (tr + 1.0)
            in \<lparr>qx = (m32 m - m23 m) * s, qy = (m13 m - m31 m) * s,
                qz = (m21 m - m12 m) * s, qw = 0.25 / s\<rparr>)
         else if m11 m > m22 m \<and> m11 m > m33 m then
           (let s = 2.0 * sqrt (1.0 + m11 m - m22 m - m33 m)
            in \<lparr>qx = 0.25 * s, qy = (m12 m + m21 m) / s,
                qz = (m13 m + m31 m) / s, qw = (m32 m - m23 m) / s\<rparr>)
         else if m22 m > m33 m then
           (let s = 2.0 * sqrt (1.0 + m22 m - m11 m - m33 m)
            in \<lparr>qx = (m12 m + m21 m) / s, qy = 0.25 * s,
                qz = (m23 m + m32 m) / s, qw = (m13 m - m31 m) / s\<rparr>)
         else
           (let s = 2.0 * sqrt (1.0 + m33 m - m11 m - m22 m)
            in \<lparr>qx = (m13 m + m31 m) / s, qy = (m23 m + m32 m) / s,
                qz = 0.25 * s, qw = (m21 m - m12 m) / s\<rparr>))"

definition extractRotation :: "Matrix4 \<Rightarrow> Matrix4" where
  \<comment> \<open>Modelled from the spec: \<^verbatim>\<open>Matrix4.extractRotation\<close> of three.js,
      \<^verbatim>\<open>const scaleX = 1 / _v1.setFromMatrixColumn(m, 0).length();\<close> and so on for
      the columns 1 and 2; then each column of \<^verbatim>\<open>m\<close> times its scale\<close>
  "extractRotation m =
     (let scaleX = 1 / length_v \<lparr>x = m11 m, y = m21 m, z = m31 m\<rparr>;
          scaleY = 1 / length_v \<lparr>x = m12 m, y = m22 m, z = m32 m\<rparr>;
          scaleZ = 1 / length_v \<lparr>x = m13 m, y = m23 m, z = m33 m\<rparr>
      in \<lparr>m11 = m11 m * scaleX, m12 = m12 m * scaleY, m13 = m13 m * scaleZ,
          m21 = m21 m * scaleX, m22 = m22 m * scaleY, m23 = m23 m * scaleZ,
          m31 = m31 m * scaleX, m32 = m32 m * scaleY, m33 = m33 m * scaleZ\<rparr>)"

definition invert :: "Quaternion \<Rightarrow> Quaternion" where
  \<comment> \<open>\<^verbatim>\<open>return this.conjugate()\<close>: \<^verbatim>\<open>_x *= -1; _y *= -1; _z *= -1\<close>\<close>
  "invert q = \<lparr>qx = qx q * (- 1), qy = qy q * (- 1), qz = qz q * (- 1), qw = qw q\<rparr>"

definition multiplyQuaternions :: "Quaternion \<Rightarrow> Quaternion \<Rightarrow> Quaternion" where
  "multiplyQuaternions a b =
     \<lparr>qx = qx a * qw b + qw a * qx b + qy a * qz b - qz a * qy b,
      qy = qy a * qw b + qw a * qy b + qz a * qx b - qx a * qz b,
      qz = qz a * qw b + qw a * qz b + qx a * qy b - qy a * qx b,
      qw = qw a * qw b - qx a * qx b - qy a * qy b - qz a * qz b\<rparr>"

definition premultiply :: "Quaternion \<Rightarrow> Quaternion \<Rightarrow> Quaternion" where
  \<comment> \<open>\<^verbatim>\<open>this.premultiply(q)\<close> is \<^verbatim>\<open>this.multiplyQuaternions(q, this)\<close>\<close>
  "premultiply this q = multiplyQuaternions q this"

section \<open>The Boid class\<close>

text \<open>
  The mesh is a three.js object. Of its state the kernel writes the position and,
  through \<^verbatim>\<open>lookAt\<close>, the orientation quaternion; \<^verbatim>\<open>lookAt\<close> reads the mesh's
  \<^verbatim>\<open>up\<close> vector. The Euler angles and the matrices three.js derives from these
  are left out.
\<close>

record Mesh =
  mesh_position :: Vector3
  quaternion :: Quaternion
  up :: Vector3

text \<open>
  \<^verbatim>\<open>Object3D.lookAt\<close> for a mesh, which is neither a camera nor a light:
  \<^verbatim>\<open>
  this.updateWorldMatrix(true, false);
  _position.setFromMatrixPosition(this.matrixWorld);
  _m1.lookAt(_target, _position, this.up);
  this.quaternion.setFromRotationMatrix(_m1);
  if (parent) {
    _m1.extractRotation(parent.matrixWorld);
    _q1.setFromRotationMatrix(_m1);
    this.quaternion.premultiply(_q1.invert());
  }
  \<close>
  The parent of every boid's mesh is the scene (\<^verbatim>\<open>scene.add(boid.mesh)\<close> in
  \<^verbatim>\<open>init\<close>), which \<^verbatim>\<open>main.js\<close> never moves, turns or scales: its world matrix is
  the identity, and the world position of the mesh is its position.
\<close>

definition scene_matrixWorld :: Matrix4 where
  "scene_matrixWorld = \<lparr>m11 = 1, m12 = 0, m13 = 0, m21 = 0, m22 = 1, m23 = 0,
     m31 = 0, m32 = 0, m33 = 1\<rparr>"

definition lookAt :: "Mesh \<Rightarrow> Vector3 \<Rightarrow> Mesh" where
  \<comment> \<open>Modelled from the spec: \<^verbatim>\<open>Object3D.lookAt\<close> of three.js, quoted above\<close>
  "lookAt this target =
     (let pos = mesh_position this;
          m1 = Matrix4_lookAt target pos (up this);
          q = setFromRotationMatrix m1;
          m1 = extractRotation scene_matrixWorld;
          q1 = setFromRotationMatrix m1
      in this\<lparr>quaternion := premultiply q (invert q1)\<rparr>)"

record Boid =
  position :: Vector3
  velocity :: Vector3
  acceleration :: Vector3
  mesh :: Mesh
  maxForce :: real
  maxSpeed :: real

text \<open>The configuration object \<^verbatim>\<open>params\<close> of \<^verbatim>\<open>main.js\<close>, as \<^verbatim>\<open>flock\<close> reads it.\<close>

record params =
  separation :: real
  alignment :: real
  cohesion :: real
  separationRadius :: real
  alignmentRadius :: real
  cohesionRadius :: real

definition Boid_new ::
  "Mesh \<Rightarrow> real \<Rightarrow> real \<Rightarrow> real \<Rightarrow> real \<Rightarrow> real \<Rightarrow> real \<Rightarrow> real \<Rightarrow> Boid" where
  \<comment> \<open>the constructor; \<open>r1\<close> to \<open>r7\<close> are its seven \<^verbatim>\<open>Math.random()\<close> draws, in order\<close>
  "Boid_new m r1 r2 r3 r4 r5 r6 r7 =
     (let pos = \<lparr>x = r1 * 400 - 200, y = r2 * 50 + 50, z = r3 * 400 - 200\<rparr>;
          vel = \<lparr>x = r4 * 2 - 1, y = r5 * 2 - 1, z = r6 * 2 - 1\<rparr>;
          vel = setLength vel (r7 * 4 + 2)
      in \<lparr>position = pos, velocity = vel, acceleration = Vector3_new,
          mesh = m\<lparr>mesh_position := pos\<rparr>,
          maxForce = 0.05, maxSpeed = 4.0\<rparr>)"

fun separate_loop :: "Boid \<Rightarrow> real \<Rightarrow> Boid list \<Rightarrow> Vector3 \<times> nat \<Rightarrow> Vector3 \<times> nat" where
  "separate_loop this radius [] (steer, count) = (steer, count)"
| "separate_loop this radius (other # boids) (steer, count) =
     (let d = distanceTo (position this) (position other)
      in if d > 0 \<and> d < radius then
           (let diff = subVectors (position this) (position other);
                diff = normalize diff;
                diff = divideScalar diff d
            in separate_loop this radius boids (add steer diff, count + 1))
         else separate_loop this radius boids (steer, count))"

definition separate :: "Boid \<Rightarrow> Boid list \<Rightarrow> real \<Rightarrow> Vector3" where
  "separate this boids radius =
     (let (steer, count) = separate_loop this radius boids (Vector3_new, 0);
          steer = (if count > 0 then divideScalar steer (real count) else steer)
      in if lengthSq steer > 0 then
           (let steer = setLength steer (maxSpeed this);
                steer = sub steer (velocity this)
            in clampLength steer 0 (maxForce this))
         else steer)"

fun align_loop :: "Boid \<Rightarrow> real \<Rightarrow> Boid list \<Rightarrow> Vector3 \<times> nat \<Rightarrow> Vector3 \<times> nat" where
  "align_loop this radius [] (sum_v, count) = (sum_v, count)"
| "align_loop this radius (other # boids) (sum_v, count) =
     (let d = distanceTo (position this) (position other)
      in if d > 0 \<and> d < radius then
           align_loop this radius boids (add sum_v (velocity other), count + 1)
         else align_loop this radius boids (sum_v, count))"

definition align :: "Boid \<Rightarrow> Boid list \<Rightarrow> real \<Rightarrow> Vector3" where
  "align this boids radius =
     (let (sum_v, count) = align_loop this radius boids (Vector3_new, 0)
      in if count > 0 then
           (let sum_v = divideScalar sum_v (real count);
                sum_v = setLength sum_v (maxSpeed this);
                steer = sub sum_v (velocity this)
            in clampLength steer 0 (maxForce this))
         else Vector3_new)"

definition seek :: "Boid \<Rightarrow> Vector3 \<Rightarrow> Vector3" where
  "seek this target =
     (let desired = subVectors target (position this);
          desired = setLength desired (maxSpeed this);
          steer = subVectors desired (velocity this)
      in clampLength steer 0 (maxForce this))"

fun cohere_loop :: "Boid \<Rightarrow> real \<Rightarrow> Boid list \<Rightarrow> Vector3 \<times> nat \<Rightarrow> Vector3 \<times> nat" where
  "cohere_loop this radius [] (sum_v, count) = (sum_v, count)"
| "cohere_loop this radius (other # boids) (sum_v, count) =
     (let d = distanceTo (position this) (position other)
      in if d > 0 \<and> d < radius then
           cohere_loop this radius boids (add sum_v (position other), count + 1)
         else cohere_loop this radius boids (sum_v, count))"

definition cohere :: "Boid \<Rightarrow> Boid list \<Rightarrow> real \<Rightarrow> Vector3" where
  "cohere this boids radius =
     (let (sum_v, count) = cohere_loop this radius boids (Vector3_new, 0)
      in if count > 0 then seek this (divideScalar sum_v (real count))
         else Vector3_new)"

definition flock :: "Boid \<Rightarrow> Boid list \<Rightarrow> params \<Rightarrow> Boid" where
  "flock this boids ps =
     (let sep = separate this boids (separationRadius ps);
          ali = align this boids (alignmentRadius ps);
          coh = cohere this boids (cohesionRadius ps);
          sep = multiplyScalar sep (separation ps);
          ali = multiplyScalar ali (alignment ps);
          coh = multiplyScalar coh (cohesion ps)
      in this\<lparr>acceleration := add (add (add (acceleration this) sep) ali) coh\<rparr>)"

definition update :: "Boid \<Rightarrow> real \<Rightarrow> Boid" where
  "update this delta =
     (let vel = add (velocity this) (acceleration this);
          vel = clampLength vel 0 (maxSpeed this);
          pos = add (position this) (multiplyScalar vel (delta * 10))
      in this\<lparr>velocity := vel, position := pos,
              acceleration := multiplyScalar (acceleration this) 0\<rparr>)"

definition wrapBounds :: "Boid \<Rightarrow> real \<Rightarrow> (real \<Rightarrow> real \<Rightarrow> real) \<Rightarrow> Boid" where
  "wrapBounds this bounds getGroundHeight =
     (let minY = getGroundHeight (x (position this)) (z (position this)) + 10;
          acc = (if y (position this) < minY
                 then (acceleration this)\<lparr>y := y (acceleration this) + 0.8\<rparr>
                 else acceleration this);
          pos = position this;
          pos = (if x pos > bounds then pos\<lparr>x := - bounds\<rparr> else pos);
          pos = (if x pos < - bounds then pos\<lparr>x := bounds\<rparr> else pos);
          pos = (if y pos > bounds + 50 then pos\<lparr>y := minY\<rparr> else pos);
          pos = (if z pos > bounds then pos\<lparr>z := - bounds\<rparr> else pos);
          pos = (if z pos < - bounds then pos\<lparr>z := bounds\<rparr> else pos)
      in this\<lparr>acceleration := acc, position := pos\<rparr>)"

definition updateMesh :: "Boid \<Rightarrow> Boid" where
  "updateMesh this =
     (let m = (mesh this)\<lparr>mesh_position := position this\<rparr>;
          m = lookAt m (add (position this) (velocity this))
      in this\<lparr>mesh := m\<rparr>)"

section \<open>The frame loop\<close>

text \<open>
  \<^verbatim>\<open>animate\<close> in \<^verbatim>\<open>main.js\<close> walks the array \<^verbatim>\<open>boids\<close> and mutates each boid
  in place, so a boid later in the array sees the boids before it already moved.
  \<open>delta\<close> is the clock's reading, \<open>getGroundHeight\<close> the terrain ray cast; both
  are parameters here.
\<close>

definition worldBounds :: real where
  "worldBounds = 300"

definition animate_boid ::
  "params \<Rightarrow> real \<Rightarrow> (real \<Rightarrow> real \<Rightarrow> real) \<Rightarrow> Boid \<Rightarrow> Boid list \<Rightarrow> Boid" where
  \<comment> \<open>the body of the loop for one boid\<close>
  "animate_boid ps delta getGroundHeight boid boids =
     (let boid = flock boid boids ps;
          boid = update boid delta;
          boid = wrapBounds boid worldBounds getGroundHeight
      in updateMesh boid)"

fun animate_loop ::
  "params \<Rightarrow> real \<Rightarrow> (real \<Rightarrow> real \<Rightarrow> real) \<Rightarrow> nat list \<Rightarrow> Boid list \<Rightarrow> Boid list" where
  "animate_loop ps delta getGroundHeight [] boids = boids"
| "animate_loop ps delta getGroundHeight (i # is) boids =
     animate_loop ps delta getGroundHeight is
       (boids[i := animate_boid ps delta getGroundHeight (boids ! i) boids])"

definition animate :: "params \<Rightarrow> real \<Rightarrow> (real \<Rightarrow> real \<Rightarrow> real) \<Rightarrow> Boid list \<Rightarrow> Boid list" where
  "animate ps delta getGroundHeight boids =
     animate_loop ps delta getGroundHeight [0..<length boids] boids"

section \<open>The same code with its undefined arithmetic written out\<close>

text \<open>
  In JavaScript a division by zero gives an infinity and the square root of a
  negative number gives NaN; with overflow left out, any infinity or NaN of the
  kernel starts at one of the two. In the functions below such a step returns
  \<open>None\<close> and every later step passes \<open>None\<close> on, so a result \<open>Some v\<close>
  says that no infinity and no NaN arose on the way to \<open>v\<close>. Apart from that
  they are the functions above, line by line. \<^verbatim>\<open>wrapBounds\<close>, the cross
  product and the quaternion product neither divide nor take a root and are used
  as they are.
\<close>

definition sqrt_chk :: "real \<Rightarrow> real option" where
  "sqrt_chk a = (if a < 0 then None else Some (sqrt a))"

definition length_chk :: "Vector3 \<Rightarrow> real option" where
  "length_chk v = sqrt_chk (x v * x v + y v * y v + z v * z v)"

definition distanceTo_chk :: "Vector3 \<Rightarrow> Vector3 \<Rightarrow> real option" where
  "distanceTo_chk v w = sqrt_chk (distanceToSquared v w)"

definition divideScalar_chk :: "Vector3 \<Rightarrow> real \<Rightarrow> Vector3 option" where
  "divideScalar_chk v s = (if s = 0 then None else Some (multiplyScalar v (1 / s)))"

definition normalize_chk :: "Vector3 \<Rightarrow> Vector3 option" where
  "normalize_chk v = do { l \<leftarrow> length_chk v; divideScalar_chk v (js_or l 1) }"

definition setLength_chk :: "Vector3 \<Rightarrow> real \<Rightarrow> Vector3 option" where
  "setLength_chk v l = do { n \<leftarrow> normalize_chk v; Some (multiplyScalar n l) }"

definition clampLength_chk :: "Vector3 \<Rightarrow> real \<Rightarrow> real \<Rightarrow> Vector3 option" where
  "clampLength_chk v mn mx =
     do { l \<leftarrow> length_chk v;
          w \<leftarrow> divideScalar_chk v (js_or l 1);
          Some (multiplyScalar w (max mn (min mx l))) }"

fun separate_loop_chk ::
  "Boid \<Rightarrow> real \<Rightarrow> Boid list \<Rightarrow> Vector3 \<times> nat \<Rightarrow> (Vector3 \<times> nat) option" where
  "separate_loop_chk this radius [] (steer, count) = Some (steer, count)"
| "separate_loop_chk this radius (other # boids) (steer, count) =
     do { d \<leftarrow> distanceTo_chk (position this) (position other);
          if d > 0 \<and> d < radius then
            do { diff \<leftarrow> normalize_chk (subVectors (position this) (position other));
                 diff \<leftarrow> divideScalar_chk diff d;
                 separate_loop_chk this radius boids (add steer diff, count + 1) }
          else separate_loop_chk this radius boids (steer, count) }"

definition separate_chk :: "Boid \<Rightarrow> Boid list \<Rightarrow> real \<Rightarrow> Vector3 option" where
  "separate_chk this boids radius =
     do { (steer, count) \<leftarrow> separate_loop_chk this radius boids (Vector3_new, 0);
          steer \<leftarrow> (if count > 0 then divideScalar_chk steer (real count) else Some steer);
          if lengthSq steer > 0 then
            do { steer \<leftarrow> setLength_chk steer (maxSpeed this);
                 clampLength_chk (sub steer (velocity this)) 0 (maxForce this) }
          else Some steer }"

fun align_loop_chk ::
  "Boid \<Rightarrow> real \<Rightarrow> Boid list \<Rightarrow> Vector3 \<times> nat \<Rightarrow> (Vector3 \<times> nat) option" where
  "align_loop_chk this radius [] (sum_v, count) = Some (sum_v, count)"
| "align_loop_chk this radius (other # boids) (sum_v, count) =
     do { d \<leftarrow> distanceTo_chk (position this) (position other);
          if d > 0 \<and> d < radius then
            align_loop_chk this radius boids (add sum_v (velocity other), count + 1)
          else align_loop_chk this radius boids (sum_v, count) }"

definition align_chk :: "Boid \<Rightarrow> Boid list \<Rightarrow> real \<Rightarrow> Vector3 option" where
  "align_chk this boids radius =
     do { (sum_v, count) \<leftarrow> align_loop_chk this radius boids (Vector3_new, 0);
          if count > 0 then
            do { sum_v \<leftarrow> divideScalar_chk sum_v (real count);
                 sum_v \<leftarrow> setLength_chk sum_v (maxSpeed this);
                 clampLength_chk (sub sum_v (velocity this)) 0 (maxForce this) }
          else Some Vector3_new }"

definition seek_chk :: "Boid \<Rightarrow> Vector3 \<Rightarrow> Vector3 option" where
  "seek_chk this target =
     do { desired \<leftarrow> setLength_chk (subVectors target (position this)) (maxSpeed this);
          clampLength_chk (subVectors desired (velocity this)) 0 (maxForce this) }"

fun cohere_loop_chk ::
  "Boid \<Rightarrow> real \<Rightarrow> Boid list \<Rightarrow> Vector3 \<times> nat \<Rightarrow> (Vector3 \<times> nat) option" where
  "cohere_loop_chk this radius [] (sum_v, count) = Some (sum_v, count)"
| "cohere_loop_chk this radius (other # boids) (sum_v, count) =
     do { d \<leftarrow> distanceTo_chk (position this) (position other);
          if d > 0 \<and> d < radius then
            cohere_loop_chk this radius boids (add sum_v (position other), count + 1)
          else cohere_loop_chk this radius boids (sum_v, count) }"

definition cohere_chk :: "Boid \<Rightarrow> Boid list \<Rightarrow> real \<Rightarrow> Vector3 option" where
  "cohere_chk this boids radius =
     do { (sum_v, count) \<leftarrow> cohere_loop_chk this radius boids (Vector3_new, 0);
          if count > 0 then
            do { target \<leftarrow> divideScalar_chk sum_v (real count); seek_chk this target }
          else Some Vector3_new }"

definition flock_chk :: "Boid \<Rightarrow> Boid list \<Rightarrow> params \<Rightarrow> Boid option" where
  "flock_chk this boids ps =
     do { sep \<leftarrow> separate_chk this boids (separationRadius ps);
          ali \<leftarrow> align_chk this boids (alignmentRadius ps);
          coh \<leftarrow> cohere_chk this boids (cohesionRadius ps);
          let sep = multiplyScalar sep (separation ps);
          let ali = multiplyScalar ali (alignment ps);
          let coh = multiplyScalar coh (cohesion ps);
          Some (this\<lparr>acceleration := add (add (add (acceleration this) sep) ali) coh\<rparr>) }"

definition update_chk :: "Boid \<Rightarrow> real \<Rightarrow> Boid option" where
  "update_chk this delta =
     do { vel \<leftarrow> clampLength_chk (add (velocity this) (acceleration this)) 0 (maxSpeed this);
          let pos = add (position this) (multiplyScalar vel (delta * 10));
          Some (this\<lparr>velocity := vel, position := pos,
                     acceleration := multiplyScalar (acceleration this) 0\<rparr>) }"

definition div_chk :: "real \<Rightarrow> real \<Rightarrow> real option" where
  "div_chk a b = (if b = 0 then None else Some (a / b))"

definition Matrix4_lookAt_chk :: "Vector3 \<Rightarrow> Vector3 \<Rightarrow> Vector3 \<Rightarrow> Matrix4 option" where
  "Matrix4_lookAt_chk eye target up_v =
     do { let zv = subVectors eye target;
          let zv = (if lengthSq zv = 0 then zv\<lparr>z := 1\<rparr> else zv);
          zv \<leftarrow> normalize_chk zv;
          let xv = crossVectors up_v zv;
          zv \<leftarrow> (if lengthSq xv = 0
                then normalize_chk (if \<bar>z up_v\<bar> = 1 then zv\<lparr>x := x zv + 0.0001\<rparr>
                                    else zv\<lparr>z := z zv + 0.0001\<rparr>)
                else Some zv);
          let xv = (if lengthSq xv = 0 then crossVectors up_v zv else xv);
          xv \<leftarrow> normalize_chk xv;
          let yv = crossVectors zv xv;
          Some \<lparr>m11 = x xv, m12 = x yv, m13 = x zv,
                m21 = y xv, m22 = y yv, m23 = y zv,
                m31 = z xv, m32 = z yv, m33 = z zv\<rparr> }"

definition setFromRotationMatrix_chk :: "Matrix4 \<Rightarrow> Quaternion option" where
  "setFromRotationMatrix_chk m =
     (let tr = m11 m + m22 m + m33 m
      in if tr > 0 then
           do { r \<leftarrow> sqrt_chk (tr + 1.0);
                s \<leftarrow> div_chk 0.5 r;
                w \<leftarrow> div_chk 0.25 s;
                Some \<lparr>qx = (m32 m - m23 m) * s, qy = (m13 m - m31 m) * s,
                      qz = (m21 m - m12 m) * s, qw = w\<rparr> }
         else if m11 m > m22 m \<and> m11 m > m33 m then
           do { r \<leftarrow> sqrt_chk (1.0 + m11 m - m22 m - m33 m);
                let s = 2.0 * r;
                w \<leftarrow> div_chk (m32 m - m23 m) s;
                yq \<leftarrow> div_chk (m12 m + m21 m) s;
                zq \<leftarrow> div_chk (m13 m + m31 m) s;
                Some \<lparr>qx = 0.25 * s, qy = yq, qz = zq, qw = w\<rparr> }
         else if m22 m > m33 m then
           do { r \<leftarrow> sqrt_chk (1.0 + m22 m - m11 m - m33 m);
                let s = 2.0 * r;
                w \<leftarrow> div_chk (m13 m - m31 m) s;
                xq \<leftarrow> div_chk (m12 m + m21 m) s;
                zq \<leftarrow> div_chk (m23 m + m32 m) s;
                Some \<lparr>qx = xq, qy = 0.25 * s, qz = zq, qw = w\<rparr> }
         else
           do { r \<leftarrow> sqrt_chk (1.0 + m33 m - m11 m - m22 m);
                let s = 2.0 * r;
                w \<leftarrow> div_chk (m21 m - m12 m) s;
                xq \<leftarrow> div_chk (m13 m + m31 m) s;
                yq \<leftarrow> div_chk (m23 m + m32 m) s;
                Some \<lparr>qx = xq, qy = yq, qz = 0.25 * s, qw = w\<rparr> })"

definition extractRotation_chk :: "Matrix4 \<Rightarrow> Matrix4 option" where
  "extractRotation_chk m =
     do { lx \<leftarrow> length_chk \<lparr>x = m11 m, y = m21 m, z = m31 m\<rparr>;
          scaleX \<leftarrow> div_chk 1 lx;
          ly \<leftarrow> length_chk \<lparr>x = m12 m, y = m22 m, z = m32 m\<rparr>;
          scaleY \<leftarrow> div_chk 1 ly;
          lz \<leftarrow> length_chk \<lparr>x = m13 m, y = m23 m, z = m33 m\<rparr>;
          scaleZ \<leftarrow> div_chk 1 lz;
          Some \<lparr>m11 = m11 m * scaleX, m12 = m12 m * scaleY, m13 = m13 m * scaleZ,
                m21 = m21 m * scaleX, m22 = m22 m * scaleY, m23 = m23 m * scaleZ,
                m31 = m31 m * scaleX, m32 = m32 m * scaleY, m33 = m33 m * scaleZ\<rparr> }"

definition lookAt_chk :: "Mesh \<Rightarrow> Vector3 \<Rightarrow> Mesh option" where
  "lookAt_chk this target =
     do { let pos = mesh_position this;
          m1 \<leftarrow> Matrix4_lookAt_chk target pos (up this);
          q \<leftarrow> setFromRotationMatrix_chk m1;
          m1 \<leftarrow> extractRotation_chk scene_matrixWorld;
          q1 \<leftarrow> setFromRotationMatrix_chk m1;
          Some (this\<lparr>quaternion := premultiply q (invert q1)\<rparr>) }"

definition updateMesh_chk :: "Boid \<Rightarrow> Boid option" where
  "updateMesh_chk this =
     do { let m = (mesh this)\<lparr>mesh_position := position this\<rparr>;
          m \<leftarrow> lookAt_chk m (add (position this) (velocity this));
          Some (this\<lparr>mesh := m\<rparr>) }"

definition animate_boid_chk ::
  "params \<Rightarrow> real \<Rightarrow> (real \<Rightarrow> real \<Rightarrow> real) \<Rightarrow> Boid \<Rightarrow> Boid list \<Rightarrow> Boid option" where
  "animate_boid_chk ps delta getGroundHeight boid boids =
     do { boid \<leftarrow> flock_chk boid boids ps;
          boid \<leftarrow> update_chk boid delta;
          let boid = wrapBounds boid worldBounds getGroundHeight;
          updateMesh_chk boid }"

fun animate_loop_chk ::
  "params \<Rightarrow> real \<Rightarrow> (real \<Rightarrow> real \<Rightarrow> real) \<Rightarrow> nat list \<Rightarrow> Boid list \<Rightarrow> Boid list option" where
  "animate_loop_chk ps delta getGroundHeight [] boids = Some boids"
| "animate_loop_chk ps delta getGroundHeight (i # is) boids =
     do { boid \<leftarrow> animate_boid_chk ps delta getGroundHeight (boids ! i) boids;
          animate_loop_chk ps delta getGroundHeight is (boids[i := boid]) }"

definition animate_chk ::
  "params \<Rightarrow> real \<Rightarrow> (real \<Rightarrow> real \<Rightarrow> real) \<Rightarrow> Boid list \<Rightarrow> Boid list option" where
  "animate_chk ps delta getGroundHeight boids =
     animate_loop_chk ps delta getGroundHeight [0..<length boids] boids"

section \<open>The integrator in the specification's words\<close>

text \<open>
  The specification describes the second step of the integrator as clamping the
  magnitude of the velocity to \<^verbatim>\<open>maxSpeed\<close>: a vector no longer than the bound is
  kept, a longer one is scaled down to the bound.
\<close>

definition clamp_magnitude :: "Vector3 \<Rightarrow> real \<Rightarrow> Vector3" where
  "clamp_magnitude v m = (if length_v v > m then multiplyScalar v (m / length_v v) else v)"

text \<open>The speed bound of one boid.\<close>

definition speed_ok :: "Boid \<Rightarrow> bool" where
  "speed_ok b \<longleftrightarrow> length_v (velocity b) \<le> maxSpeed b"

section \<open>Concrete agents\<close>

text \<open>
  \<open>boid_at\<close> is a boid as the constructor leaves it (zero acceleration,
  \<^verbatim>\<open>maxForce = 0.05\<close>, \<^verbatim>\<open>maxSpeed = 4.0\<close>) at a chosen position and velocity;
  its mesh \<open>mesh0\<close> is a new three.js mesh, unturned and with the default
  \<^verbatim>\<open>up = (0, 1, 0)\<close>.
  \<open>params_main\<close> is the initial \<^verbatim>\<open>params\<close> object of \<^verbatim>\<open>main.js\<close>, and
  \<open>flat_ground\<close> a terrain of height zero.
\<close>

definition mesh0 :: Mesh where
  "mesh0 = \<lparr>mesh_position = Vector3_new,
     quaternion = \<lparr>qx = 0, qy = 0, qz = 0, qw = 1\<rparr>,
     up = \<lparr>x = 0, y = 1, z = 0\<rparr>\<rparr>"

definition boid_at :: "Vector3 \<Rightarrow> Vector3 \<Rightarrow> Boid" where
  "boid_at pos vel =
     \<lparr>position = pos, velocity = vel, acceleration = Vector3_new,
      mesh = mesh0\<lparr>mesh_position := pos\<rparr>, maxForce = 0.05, maxSpeed = 4.0\<rparr>"

definition flat_ground :: "real \<Rightarrow> real \<Rightarrow> real" where
  "flat_ground a c = 0"

definition params_main :: params where
  "params_main = \<lparr>separation = 2.0, alignment = 1.0, cohesion = 1.0,
     separationRadius = 30, alignmentRadius = 50, cohesionRadius = 50\<rparr>"

definition agent0 :: Boid where
  "agent0 = boid_at \<lparr>x = 0, y = 50, z = 0\<rparr> Vector3_new"

definition agent1 :: Boid where
  "agent1 = boid_at \<lparr>x = 5, y = 50, z = 0\<rparr> \<lparr>x = 4, y = 0, z = 0\<rparr>"

definition agent2 :: Boid where
  "agent2 = boid_at \<lparr>x = 60, y = 50, z = 0\<rparr> Vector3_new"

definition agent3 :: Boid where
  "agent3 = boid_at \<lparr>x = 0, y = 50, z = 5\<rparr> \<lparr>x = - 4, y = 0, z = 0\<rparr>"

definition agent_fast :: Boid where
  "agent_fast = boid_at \<lparr>x = 0, y = 50, z = 0\<rparr> \<lparr>x = - 5, y = 0, z = 0\<rparr>"

definition agent_low :: Boid where
  "agent_low = boid_at \<lparr>x = 0, y = 5, z = 0\<rparr> Vector3_new"

definition agent_out :: Boid where
  "agent_out = boid_at \<lparr>x = 301, y = 400, z = 301\<rparr> \<lparr>x = 3, y = 0, z = 0\<rparr>"

definition agent_out_neg :: Boid where
  "agent_out_neg = boid_at \<lparr>x = - 301, y = 50, z = - 301\<rparr> Vector3_new"

section \<open>Vector facts\<close>

lemmas vec_defs = add_def sub_def subVectors_def multiplyScalar_def divideScalar_def
  lengthSq_def length_v_def distanceTo_def distanceToSquared_def normalize_def
  setLength_def clampLength_def js_or_def Vector3_new_def

lemma length_v_nonneg: "0 \<le> length_v v"
  by (simp add: length_v_def)

lemma length_v_multiplyScalar: "length_v (multiplyScalar v s) = \<bar>s\<bar> * length_v v"
proof -
  have "x v * s * (x v * s) + y v * s * (y v * s) + z v * s * (z v * s)
        = (s * s) * (x v * x v + y v * y v + z v * z v)"
    by (simp add: algebra_simps)
  then show ?thesis
    by (simp add: length_v_def multiplyScalar_def real_sqrt_mult)
qed

lemma lengthSq_nonneg: "0 \<le> lengthSq v"
  by (simp add: lengthSq_def)

lemma lengthSq_eq_0_iff: "lengthSq v = 0 \<longleftrightarrow> v = Vector3_new"
proof
  assume sq: "lengthSq v = 0"
  have "x v * x v + (y v * y v + z v * z v) = 0"
    using sq by (simp add: lengthSq_def)
  then have "x v = 0 \<and> y v = 0 \<and> z v = 0"
    by (simp add: add_nonneg_eq_0_iff)
  then show "v = Vector3_new"
    by (simp add: Vector3_new_def)
next
  assume "v = Vector3_new"
  then show "lengthSq v = 0" by (simp add: lengthSq_def Vector3_new_def)
qed

lemma length_v_sqrt_lengthSq: "length_v v = sqrt (lengthSq v)"
  by (simp add: length_v_def lengthSq_def)

lemma length_v_eq_0_iff: "length_v v = 0 \<longleftrightarrow> v = Vector3_new"
  by (simp add: length_v_sqrt_lengthSq lengthSq_eq_0_iff)

lemma lengthSq_zero_vec: "lengthSq Vector3_new = 0"
  by (simp add: lengthSq_eq_0_iff)

lemma length_v_zero_vec: "length_v Vector3_new = 0"
  by (simp add: length_v_eq_0_iff)

lemma distanceTo_self: "distanceTo v v = 0"
  by (simp add: distanceTo_def distanceToSquared_def)

lemma multiplyScalar_0: "multiplyScalar v 0 = Vector3_new"
  by (simp add: multiplyScalar_def Vector3_new_def)

lemma multiplyScalar_zero_vec: "multiplyScalar Vector3_new s = Vector3_new"
  by (simp add: multiplyScalar_def Vector3_new_def)

text \<open>The zero vector is normalised to itself: \<^verbatim>\<open>length() || 1\<close> divides by one.\<close>

lemma normalize_zero_vec: "normalize Vector3_new = Vector3_new"
  by (simp add: normalize_def divideScalar_def multiplyScalar_zero_vec)

lemma setLength_zero_vec: "setLength Vector3_new l = Vector3_new"
  by (simp add: setLength_def normalize_zero_vec multiplyScalar_zero_vec)

lemma length_v_setLength:
  assumes "v \<noteq> Vector3_new"
  shows "length_v (setLength v l) = \<bar>l\<bar>"
proof -
  have pos: "0 < length_v v"
    using assms length_v_nonneg [of v] length_v_eq_0_iff [of v] by simp
  then show ?thesis
    by (simp add: setLength_def normalize_def divideScalar_def js_or_def length_v_multiplyScalar)
qed

lemma length_v_clampLength:
  "length_v (clampLength v 0 mx) = (if length_v v = 0 then 0 else max 0 (min mx (length_v v)))"
proof (cases "length_v v = 0")
  case True
  then show ?thesis
    by (simp add: clampLength_def Let_def length_v_multiplyScalar divideScalar_def js_or_def)
next
  case False
  then have pos: "0 < length_v v" using length_v_nonneg [of v] by simp
  then show ?thesis
    by (simp add: clampLength_def Let_def length_v_multiplyScalar divideScalar_def js_or_def)
qed

lemma clampLength_bound: "0 \<le> mx \<Longrightarrow> length_v (clampLength v 0 mx) \<le> mx"
  by (simp add: length_v_clampLength)

lemma clampLength_negative_max: "mx < 0 \<Longrightarrow> clampLength v 0 mx = Vector3_new"
proof -
  assume "mx < 0"
  then have "max 0 (min mx (length_v v)) = 0" by simp
  then show ?thesis by (simp add: clampLength_def Let_def multiplyScalar_0)
qed

lemma clampLength_zero_or_bound:
  "clampLength v 0 mx = Vector3_new \<or> length_v (clampLength v 0 mx) \<le> mx"
  using clampLength_bound [of mx v] clampLength_negative_max [of mx v] by linarith

lemma clampLength_eq_clamp_magnitude:
  assumes "0 \<le> m"
  shows "clampLength v 0 m = clamp_magnitude v m"
proof (cases "length_v v = 0")
  case True
  then have "v = Vector3_new" by (simp add: length_v_eq_0_iff)
  then show ?thesis using assms True
    by (simp add: clampLength_def clamp_magnitude_def Let_def multiplyScalar_0)
next
  case False
  then have pos: "0 < length_v v" using length_v_nonneg [of v] by simp
  show ?thesis
  proof (cases "length_v v > m")
    case True
    then show ?thesis using assms pos
      by (simp add: clampLength_def clamp_magnitude_def Let_def js_or_def
          divideScalar_def multiplyScalar_def)
  next
    case False
    then show ?thesis using assms pos
      by (simp add: clampLength_def clamp_magnitude_def Let_def js_or_def
          divideScalar_def multiplyScalar_def)
  qed
qed

lemma x_clampLength_neg:
  assumes "x w < 0" "0 < mf"
  shows "x (clampLength w 0 mf) < 0"
proof -
  have "w \<noteq> Vector3_new" using assms(1) by (auto simp: Vector3_new_def)
  then have pos: "0 < length_v w"
    using length_v_nonneg [of w] length_v_eq_0_iff [of w] by simp
  then have "0 < (1 / length_v w) * max 0 (min mf (length_v w))"
    using assms(2) by simp
  then have "x w * ((1 / length_v w) * max 0 (min mf (length_v w))) < 0"
    using assms(1) by (simp only: mult_neg_pos)
  moreover have "x (clampLength w 0 mf) = x w * ((1 / length_v w) * max 0 (min mf (length_v w)))"
    using pos by (simp add: clampLength_def Let_def js_or_def divideScalar_def multiplyScalar_def)
  ultimately show ?thesis by simp
qed

lemma sqrt_16: "sqrt 16 = 4"
  by (rule real_sqrt_unique) simp_all

lemma sqrt_25: "sqrt 25 = 5"
  by (rule real_sqrt_unique) simp_all

lemma sqrt_3600: "sqrt 3600 = 60"
  by (rule real_sqrt_unique) simp_all

lemmas agent_defs = agent0_def agent1_def agent2_def agent3_def agent_fast_def agent_low_def
  agent_out_def agent_out_neg_def boid_at_def mesh0_def

lemmas eval_simps = vec_defs Let_def sqrt_16 sqrt_25 sqrt_3600 real_sqrt_divide

section \<open>What each method leaves untouched\<close>

lemma velocity_flock: "velocity (flock this boids ps) = velocity this"
  by (simp add: flock_def Let_def)

lemma maxSpeed_flock: "maxSpeed (flock this boids ps) = maxSpeed this"
  by (simp add: flock_def Let_def)

lemma velocity_update:
  "velocity (update this delta) =
     clampLength (add (velocity this) (acceleration this)) 0 (maxSpeed this)"
  by (simp add: update_def Let_def)

lemma maxSpeed_update: "maxSpeed (update this delta) = maxSpeed this"
  by (simp add: update_def Let_def)

lemma velocity_wrapBounds: "velocity (wrapBounds this bounds h) = velocity this"
  by (simp add: wrapBounds_def Let_def)

lemma maxSpeed_wrapBounds: "maxSpeed (wrapBounds this bounds h) = maxSpeed this"
  by (simp add: wrapBounds_def Let_def)

lemma velocity_updateMesh: "velocity (updateMesh this) = velocity this"
  by (simp add: updateMesh_def)

lemma maxSpeed_updateMesh: "maxSpeed (updateMesh this) = maxSpeed this"
  by (simp add: updateMesh_def)

lemma animate_boid_speed:
  "0 \<le> maxSpeed this \<Longrightarrow>
   length_v (velocity (animate_boid ps delta h this boids)) \<le> maxSpeed this"
  by (simp add: animate_boid_def Let_def velocity_updateMesh velocity_wrapBounds
      velocity_update maxSpeed_flock clampLength_bound)

lemma maxSpeed_animate_boid: "maxSpeed (animate_boid ps delta h this boids) = maxSpeed this"
  by (simp add: animate_boid_def Let_def maxSpeed_updateMesh maxSpeed_wrapBounds
      maxSpeed_update maxSpeed_flock)

lemma animate_loop_inv:
  "\<forall>j<length boids. 0 \<le> maxSpeed (boids ! j) \<Longrightarrow>
   \<forall>i\<in>set is. i < length boids \<Longrightarrow>
   length (animate_loop ps delta h is boids) = length boids \<and>
   (\<forall>j<length boids. maxSpeed (animate_loop ps delta h is boids ! j) = maxSpeed (boids ! j)) \<and>
   (\<forall>j<length boids. j \<in> set is \<or> speed_ok (boids ! j) \<longrightarrow>
        speed_ok (animate_loop ps delta h is boids ! j))"
proof (induction "is" arbitrary: boids)
  case Nil
  then show ?case by simp
next
  case (Cons i "is")
  let ?b = "animate_boid ps delta h (boids ! i) boids"
  let ?boids = "boids[i := ?b]"
  have i: "i < length boids" using Cons.prems(2) by simp
  have ms: "\<And>j. j < length boids \<Longrightarrow> maxSpeed (?boids ! j) = maxSpeed (boids ! j)"
  proof -
    fix j assume "j < length boids"
    then show "maxSpeed (?boids ! j) = maxSpeed (boids ! j)"
      by (cases "j = i") (simp_all add: maxSpeed_animate_boid)
  qed
  have ok_i: "speed_ok (?boids ! i)"
    using i Cons.prems(1) animate_boid_speed [of "boids ! i" ps delta h boids]
    by (simp add: speed_ok_def maxSpeed_animate_boid)
  have p1: "\<forall>j<length ?boids. 0 \<le> maxSpeed (?boids ! j)"
    using Cons.prems(1) ms by simp
  have p2: "\<forall>k\<in>set is. k < length ?boids"
    using Cons.prems(2) by simp
  note IH = Cons.IH [OF p1 p2]
  have keep: "\<And>j. j < length boids \<Longrightarrow> j \<noteq> i \<Longrightarrow> ?boids ! j = boids ! j"
    by simp
  show ?case
  proof (intro conjI allI impI)
    show "length (animate_loop ps delta h (i # is) boids) = length boids"
      using IH by simp
  next
    fix j assume "j < length boids"
    then show "maxSpeed (animate_loop ps delta h (i # is) boids ! j) = maxSpeed (boids ! j)"
      using IH ms by simp
  next
    fix j assume j: "j < length boids" and hj: "j \<in> set (i # is) \<or> speed_ok (boids ! j)"
    have "j \<in> set is \<or> speed_ok (?boids ! j)"
    proof (cases "j = i")
      case True
      then show ?thesis using ok_i by simp
    next
      case False
      then show ?thesis using hj keep [OF j False] by auto
    qed
    moreover have "\<forall>k<length boids. k \<in> set is \<or> speed_ok (?boids ! k) \<longrightarrow>
        speed_ok (animate_loop ps delta h is ?boids ! k)"
      using IH by simp
    ultimately have "speed_ok (animate_loop ps delta h is ?boids ! j)"
      using j by blast
    then show "speed_ok (animate_loop ps delta h (i # is) boids ! j)"
      by simp
  qed
qed

lemma animate_speed_bound:
  assumes "\<forall>b\<in>set boids. 0 \<le> maxSpeed b"
  shows "\<forall>b\<in>set (animate ps delta h boids). length_v (velocity b) \<le> maxSpeed b"
proof -
  have p1: "\<forall>j<length boids. 0 \<le> maxSpeed (boids ! j)" using assms by simp
  have p2: "\<forall>i\<in>set [0..<length boids]. i < length boids" by simp
  note inv = animate_loop_inv [OF p1 p2, of ps delta h]
  show ?thesis
  proof
    fix b assume "b \<in> set (animate ps delta h boids)"
    then obtain j where j: "j < length boids" and b: "b = animate ps delta h boids ! j"
      using inv by (auto simp: in_set_conv_nth animate_def)
    have "speed_ok (animate_loop ps delta h [0..<length boids] boids ! j)"
      using inv j by simp
    then show "length_v (velocity b) \<le> maxSpeed b"
      using b by (simp add: speed_ok_def animate_def)
  qed
qed

section \<open>Speed bound\<close>

text \<open>
  C1. One step of an agent is \<^verbatim>\<open>flock\<close>, then \<^verbatim>\<open>update\<close>, then \<^verbatim>\<open>wrapBounds\<close>.
  Immediately after it the length of the agent's velocity is at most its
  \<^verbatim>\<open>maxSpeed\<close>, and after a whole frame of \<^verbatim>\<open>animate\<close> this holds of every boid
  of the flock. The constructor sets \<^verbatim>\<open>maxSpeed = 4.0\<close>; the proof needs only that
  it is not negative.
\<close>

theorem speed_bound_after_step:
  assumes "0 \<le> maxSpeed this" and "\<forall>b\<in>set boids. 0 \<le> maxSpeed b"
  shows "length_v (velocity (wrapBounds (update (flock this boids ps) delta) bounds h))
           \<le> maxSpeed (wrapBounds (update (flock this boids ps) delta) bounds h) \<and>
         (\<forall>b\<in>set (animate ps delta h boids). length_v (velocity b) \<le> maxSpeed b)"
  using assms animate_speed_bound [of boids ps delta h]
  by (simp add: velocity_wrapBounds maxSpeed_wrapBounds velocity_update maxSpeed_update
      maxSpeed_flock clampLength_bound)

theorem speed_bound_after_step_witness:
  "length_v (velocity (wrapBounds (update (flock agent_fast [agent_fast, agent1, agent2]
       params_main) (1/10)) worldBounds flat_ground))
     \<le> maxSpeed (wrapBounds (update (flock agent_fast [agent_fast, agent1, agent2]
       params_main) (1/10)) worldBounds flat_ground) \<and>
   list_all speed_ok (animate params_main (1/10) flat_ground [agent_fast, agent1, agent2])"
proof -
  have h1: "0 \<le> maxSpeed agent_fast"
    by (simp add: agent_defs)
  have h2: "\<forall>b\<in>set [agent_fast, agent1, agent2]. 0 \<le> maxSpeed b"
    by (simp add: agent_defs)
  show ?thesis
    using speed_bound_after_step [OF h1 h2, of params_main "1/10" worldBounds flat_ground]
    by (simp add: list_all_iff speed_ok_def)
qed

section \<open>Force bound\<close>

lemma separate_zero_or_bound:
  "separate this boids radius = Vector3_new \<or>
   length_v (separate this boids radius) \<le> maxForce this"
proof -
  obtain steer count where lp: "separate_loop this radius boids (Vector3_new, 0) = (steer, count)"
    by (cases "separate_loop this radius boids (Vector3_new, 0)")
  define steer' where "steer' = (if count > 0 then divideScalar steer (real count) else steer)"
  show ?thesis
  proof (cases "lengthSq steer' > 0")
    case True
    then have "separate this boids radius =
        clampLength (sub (setLength steer' (maxSpeed this)) (velocity this)) 0 (maxForce this)"
      by (simp add: separate_def lp steer'_def Let_def)
    then show ?thesis using clampLength_zero_or_bound by simp
  next
    case False
    then have "lengthSq steer' = 0" using lengthSq_nonneg [of steer'] by simp
    then have "steer' = Vector3_new" by (simp add: lengthSq_eq_0_iff)
    moreover have "separate this boids radius = steer'"
      using False by (simp add: separate_def lp steer'_def Let_def)
    ultimately show ?thesis by simp
  qed
qed

lemma align_zero_or_bound:
  "align this boids radius = Vector3_new \<or>
   length_v (align this boids radius) \<le> maxForce this"
proof -
  obtain sum_v count where lp: "align_loop this radius boids (Vector3_new, 0) = (sum_v, count)"
    by (cases "align_loop this radius boids (Vector3_new, 0)")
  show ?thesis
    using clampLength_zero_or_bound by (simp add: align_def lp Let_def)
qed

lemma seek_zero_or_bound:
  "seek this target = Vector3_new \<or> length_v (seek this target) \<le> maxForce this"
  using clampLength_zero_or_bound by (simp add: seek_def Let_def)

lemma cohere_zero_or_bound:
  "cohere this boids radius = Vector3_new \<or>
   length_v (cohere this boids radius) \<le> maxForce this"
proof -
  obtain sum_v count where lp: "cohere_loop this radius boids (Vector3_new, 0) = (sum_v, count)"
    by (cases "cohere_loop this radius boids (Vector3_new, 0)")
  show ?thesis
    using seek_zero_or_bound by (simp add: cohere_def lp Let_def)
qed

lemma separate_agent0:
  "separate agent0 [agent0, agent1] 30 = \<lparr>x = - (1/20), y = 0, z = 0\<rparr>"
  by (simp add: separate_def agent_defs eval_simps)

lemma align_agent0:
  "align agent0 [agent0, agent1] 30 = \<lparr>x = 1/20, y = 0, z = 0\<rparr>"
  by (simp add: align_def agent_defs eval_simps)

lemma cohere_agent0:
  "cohere agent0 [agent0, agent1] 30 = \<lparr>x = 1/20, y = 0, z = 0\<rparr>"
  by (simp add: cohere_def seek_def agent_defs eval_simps)

text \<open>
  C2. For every agent, flock and radius, each of \<^verbatim>\<open>separate\<close>, \<^verbatim>\<open>align\<close> and
  \<^verbatim>\<open>cohere\<close> returns a vector that, when it is not the zero vector, is no longer
  than the agent's \<^verbatim>\<open>maxForce\<close>.
\<close>

theorem steering_force_bound:
  "(separate this boids radius \<noteq> Vector3_new \<longrightarrow>
      length_v (separate this boids radius) \<le> maxForce this) \<and>
   (align this boids radius \<noteq> Vector3_new \<longrightarrow>
      length_v (align this boids radius) \<le> maxForce this) \<and>
   (cohere this boids radius \<noteq> Vector3_new \<longrightarrow>
      length_v (cohere this boids radius) \<le> maxForce this)"
  using separate_zero_or_bound [of this boids radius]
    align_zero_or_bound [of this boids radius]
    cohere_zero_or_bound [of this boids radius]
  by blast

theorem steering_force_bound_witness:
  "separate agent0 [agent0, agent1] 30 \<noteq> Vector3_new \<and>
   length_v (separate agent0 [agent0, agent1] 30) \<le> maxForce agent0 \<and>
   align agent0 [agent0, agent1] 30 \<noteq> Vector3_new \<and>
   length_v (align agent0 [agent0, agent1] 30) \<le> maxForce agent0 \<and>
   cohere agent0 [agent0, agent1] 30 \<noteq> Vector3_new \<and>
   length_v (cohere agent0 [agent0, agent1] 30) \<le> maxForce agent0"
proof -
  have n1: "separate agent0 [agent0, agent1] 30 \<noteq> Vector3_new"
    by (simp add: separate_agent0 Vector3_new_def)
  have n2: "align agent0 [agent0, agent1] 30 \<noteq> Vector3_new"
    by (simp add: align_agent0 Vector3_new_def)
  have n3: "cohere agent0 [agent0, agent1] 30 \<noteq> Vector3_new"
    by (simp add: cohere_agent0 Vector3_new_def)
  show ?thesis
    using n1 n2 n3 steering_force_bound [of agent0 "[agent0, agent1]" 30] by blast
qed

section \<open>The integrator\<close>

text \<open>
  C3. \<^verbatim>\<open>update\<close> adds the acceleration to the velocity as it is, with no factor
  \<open>delta\<close>, clamps the magnitude of the sum to \<^verbatim>\<open>maxSpeed\<close>, and then adds the
  new velocity times \<open>delta\<close> times 10 to the position.
\<close>

theorem integrator_steps:
  assumes "0 \<le> maxSpeed this"
  shows "velocity (update this delta) =
           clamp_magnitude \<lparr>x = x (velocity this) + x (acceleration this),
                            y = y (velocity this) + y (acceleration this),
                            z = z (velocity this) + z (acceleration this)\<rparr> (maxSpeed this) \<and>
         position (update this delta) =
           \<lparr>x = x (position this) + x (velocity (update this delta)) * delta * 10,
            y = y (position this) + y (velocity (update this delta)) * delta * 10,
            z = z (position this) + z (velocity (update this delta)) * delta * 10\<rparr>"
  using assms
  by (simp add: update_def Let_def clampLength_eq_clamp_magnitude add_def multiplyScalar_def)

lemma update_agent1:
  "velocity (update agent1 (1/10)) = \<lparr>x = 4, y = 0, z = 0\<rparr> \<and>
   position (update agent1 (1/10)) = \<lparr>x = 9, y = 50, z = 0\<rparr>"
  by (simp add: update_def agent_defs eval_simps)

theorem integrator_steps_witness:
  "0 \<le> maxSpeed agent1 \<and>
   velocity (update agent1 (1/10)) =
     clamp_magnitude \<lparr>x = x (velocity agent1) + x (acceleration agent1),
                      y = y (velocity agent1) + y (acceleration agent1),
                      z = z (velocity agent1) + z (acceleration agent1)\<rparr> (maxSpeed agent1) \<and>
   velocity (update agent1 (1/10)) = \<lparr>x = 4, y = 0, z = 0\<rparr> \<and>
   position (update agent1 (1/10)) = \<lparr>x = 9, y = 50, z = 0\<rparr>"
proof -
  have h1: "0 \<le> maxSpeed agent1"
    by (simp add: agent_defs)
  show ?thesis
    using h1 integrator_steps [OF h1, of "1/10"] update_agent1 by blast
qed

section \<open>Isolation\<close>

lemma separate_loop_no_neighbour:
  "\<forall>other \<in> set boids. \<not> (0 < distanceTo (position this) (position other) \<and>
        distanceTo (position this) (position other) < radius) \<Longrightarrow>
   separate_loop this radius boids acc = acc"
  by (induction boids arbitrary: acc) (auto simp: Let_def)

lemma align_loop_no_neighbour:
  "\<forall>other \<in> set boids. \<not> (0 < distanceTo (position this) (position other) \<and>
        distanceTo (position this) (position other) < radius) \<Longrightarrow>
   align_loop this radius boids acc = acc"
  by (induction boids arbitrary: acc) (auto simp: Let_def)

lemma cohere_loop_no_neighbour:
  "\<forall>other \<in> set boids. \<not> (0 < distanceTo (position this) (position other) \<and>
        distanceTo (position this) (position other) < radius) \<Longrightarrow>
   cohere_loop this radius boids acc = acc"
  by (induction boids arbitrary: acc) (auto simp: Let_def)

lemma no_neighbour_zero:
  assumes "\<forall>other \<in> set boids. \<not> (0 < distanceTo (position this) (position other) \<and>
        distanceTo (position this) (position other) < radius)"
  shows "separate this boids radius = Vector3_new \<and>
         align this boids radius = Vector3_new \<and>
         cohere this boids radius = Vector3_new"
  by (simp add: separate_def align_def cohere_def separate_loop_no_neighbour [OF assms]
      align_loop_no_neighbour [OF assms] cohere_loop_no_neighbour [OF assms] lengthSq_zero_vec)

text \<open>
  C8. When every boid of the flock is at distance exactly 0 from the agent or at
  least \<open>radius\<close> away, \<^verbatim>\<open>separate\<close>, \<^verbatim>\<open>align\<close> and \<^verbatim>\<open>cohere\<close> all return
  the zero vector; so they do for a flock that holds the agent alone. The three
  methods are total: there is no error for them to raise.
\<close>

theorem isolated_agent_zero_steering:
  assumes "\<forall>other \<in> set boids.
             distanceTo (position this) (position other) = 0 \<or>
             radius \<le> distanceTo (position this) (position other)"
  shows "separate this boids radius = Vector3_new \<and>
         align this boids radius = Vector3_new \<and>
         cohere this boids radius = Vector3_new \<and>
         separate this [this] radius = Vector3_new \<and>
         align this [this] radius = Vector3_new \<and>
         cohere this [this] radius = Vector3_new"
proof -
  have nn: "\<forall>other \<in> set boids. \<not> (0 < distanceTo (position this) (position other) \<and>
        distanceTo (position this) (position other) < radius)"
    using assms by fastforce
  have self: "\<forall>other \<in> set [this]. \<not> (0 < distanceTo (position this) (position other) \<and>
        distanceTo (position this) (position other) < radius)"
    by (simp add: distanceTo_self)
  show ?thesis
    using no_neighbour_zero [OF nn] no_neighbour_zero [OF self] by simp
qed

theorem isolated_agent_zero_steering_witness:
  "distanceTo (position agent0) (position agent0) = 0 \<and>
   30 \<le> distanceTo (position agent0) (position agent2) \<and>
   separate agent0 [agent0, agent2] 30 = Vector3_new \<and>
   align agent0 [agent0, agent2] 30 = Vector3_new \<and>
   cohere agent0 [agent0, agent2] 30 = Vector3_new"
proof -
  have d0: "distanceTo (position agent0) (position agent0) = 0"
    by (simp add: distanceTo_self)
  have d2: "distanceTo (position agent0) (position agent2) = 60"
    by (simp add: agent_defs eval_simps)
  have hyp: "\<forall>other \<in> set [agent0, agent2].
             distanceTo (position agent0) (position other) = 0 \<or>
             30 \<le> distanceTo (position agent0) (position other)"
    by (simp add: d0 d2)
  show ?thesis
    using isolated_agent_zero_steering [OF hyp] d0 d2 by simp
qed

section \<open>The acceleration at the end of a tick\<close>

text \<open>
  C4, as the code has it. \<^verbatim>\<open>update\<close> leaves the acceleration at zero.
  \<^verbatim>\<open>wrapBounds\<close> runs after it and adds the floor bias to that zero, so at the
  end of the tick the acceleration is \<open>(0, 0.8, 0)\<close> for an agent below the
  clearance height \<open>minY\<close> and zero for every other agent.
\<close>

theorem acceleration_after_tick:
  "acceleration (update this delta) = Vector3_new \<and>
   (y (position (update this delta))
      < h (x (position (update this delta))) (z (position (update this delta))) + 10 \<longrightarrow>
    acceleration (wrapBounds (update this delta) bounds h) = \<lparr>x = 0, y = 0.8, z = 0\<rparr>) \<and>
   (\<not> y (position (update this delta))
      < h (x (position (update this delta))) (z (position (update this delta))) + 10 \<longrightarrow>
    acceleration (wrapBounds (update this delta) bounds h) = Vector3_new)"
  by (simp add: wrapBounds_def update_def Let_def multiplyScalar_def Vector3_new_def)

lemma position_update_agent_low: "position (update agent_low (1/10)) = \<lparr>x = 0, y = 5, z = 0\<rparr>"
  by (simp add: update_def agent_defs eval_simps)

lemma position_update_agent0: "position (update agent0 (1/10)) = \<lparr>x = 0, y = 50, z = 0\<rparr>"
  by (simp add: update_def agent_defs eval_simps)

theorem acceleration_after_tick_witness:
  "acceleration (wrapBounds (update agent_low (1/10)) worldBounds flat_ground)
     = \<lparr>x = 0, y = 0.8, z = 0\<rparr> \<and>
   acceleration (wrapBounds (update agent0 (1/10)) worldBounds flat_ground) = Vector3_new"
  using acceleration_after_tick [of agent_low "1/10" flat_ground worldBounds]
    acceleration_after_tick [of agent0 "1/10" flat_ground worldBounds]
  by (simp add: position_update_agent_low position_update_agent0 flat_ground_def)

text \<open>
  The claim as the specification words it fails: an agent alone in its flock, at
  height 5 over flat ground, ends its tick with the acceleration \<open>(0, 0.8, 0)\<close>.
\<close>

lemma flock_agent_low: "flock agent_low [agent_low] params_main = agent_low"
proof -
  have self: "\<forall>other \<in> set [agent_low].
      \<not> (0 < distanceTo (position agent_low) (position other) \<and>
         distanceTo (position agent_low) (position other) < r)" for r
    by (simp add: distanceTo_self)
  have acc: "acceleration agent_low = Vector3_new"
    by (simp add: agent_defs)
  show ?thesis
    by (simp add: flock_def Let_def no_neighbour_zero [OF self] multiplyScalar_zero_vec acc)
      (simp add: add_def Vector3_new_def agent_defs)
qed

lemma update_agent_low: "update agent_low (1/10) = agent_low"
  by (simp add: update_def agent_defs eval_simps)

theorem floor_bias_survives_tick:
  "acceleration (animate_boid params_main (1/10) flat_ground agent_low [agent_low])
     = \<lparr>x = 0, y = 0.8, z = 0\<rparr> \<and>
   acceleration (animate_boid params_main (1/10) flat_ground agent_low [agent_low])
     \<noteq> Vector3_new"
proof -
  have eq: "animate_boid params_main (1/10) flat_ground agent_low [agent_low]
        = updateMesh (wrapBounds agent_low worldBounds flat_ground)"
    by (simp add: animate_boid_def flock_agent_low update_agent_low)
  have "acceleration (updateMesh (wrapBounds agent_low worldBounds flat_ground))
        = \<lparr>x = 0, y = 0.8, z = 0\<rparr>"
    by (simp add: updateMesh_def wrapBounds_def flat_ground_def agent_defs Let_def
        Vector3_new_def)
  then show ?thesis
    by (simp add: eq Vector3_new_def)
qed

section \<open>The boundary policy\<close>

text \<open>
  C6. With a world bound that is not negative, \<^verbatim>\<open>wrapBounds\<close> moves \<open>x\<close> to
  \<open>- bounds\<close> when it exceeds \<open>bounds\<close>, to \<open>bounds\<close> when it is below
  \<open>- bounds\<close>, and keeps it otherwise; the same for \<open>z\<close>. Only the top edge
  wraps for \<open>y\<close>: above \<open>bounds + 50\<close> it becomes \<open>minY\<close>, the ground height at
  the agent's horizontal position on entry plus 10, and otherwise it is kept. An
  agent at \<open>x = bounds + 1\<close> lands on \<open>x = - bounds\<close>.
\<close>

theorem world_edge_wrap:
  assumes "0 \<le> bounds"
  shows
   "(x (position this) > bounds \<longrightarrow> x (position (wrapBounds this bounds h)) = - bounds) \<and>
    (x (position this) < - bounds \<longrightarrow> x (position (wrapBounds this bounds h)) = bounds) \<and>
    (- bounds \<le> x (position this) \<and> x (position this) \<le> bounds \<longrightarrow>
       x (position (wrapBounds this bounds h)) = x (position this)) \<and>
    (z (position this) > bounds \<longrightarrow> z (position (wrapBounds this bounds h)) = - bounds) \<and>
    (z (position this) < - bounds \<longrightarrow> z (position (wrapBounds this bounds h)) = bounds) \<and>
    (- bounds \<le> z (position this) \<and> z (position this) \<le> bounds \<longrightarrow>
       z (position (wrapBounds this bounds h)) = z (position this)) \<and>
    (y (position this) > bounds + 50 \<longrightarrow>
       y (position (wrapBounds this bounds h)) = h (x (position this)) (z (position this)) + 10) \<and>
    (\<not> y (position this) > bounds + 50 \<longrightarrow>
       y (position (wrapBounds this bounds h)) = y (position this)) \<and>
    (x (position this) = bounds + 1 \<longrightarrow> x (position (wrapBounds this bounds h)) = - bounds)"
  using assms by (simp add: wrapBounds_def Let_def)

theorem world_edge_wrap_witness:
  "position (wrapBounds agent_out worldBounds flat_ground)
     = \<lparr>x = - worldBounds, y = 10, z = - worldBounds\<rparr> \<and>
   position (wrapBounds agent_out_neg worldBounds flat_ground)
     = \<lparr>x = worldBounds, y = 50, z = worldBounds\<rparr> \<and>
   position (wrapBounds agent0 worldBounds flat_ground) = position agent0"
proof -
  have h1: "0 \<le> worldBounds"
    by (simp add: worldBounds_def)
  have "\<And>v w. x v = x w \<Longrightarrow> y v = y w \<Longrightarrow> z v = z w \<Longrightarrow> v = (w :: Vector3)"
    by simp
  then show ?thesis
    using world_edge_wrap [OF h1, of agent_out flat_ground]
      world_edge_wrap [OF h1, of agent_out_neg flat_ground]
      world_edge_wrap [OF h1, of agent0 flat_ground]
    by (simp add: agent_defs worldBounds_def flat_ground_def)
qed

text \<open>
  C7. In \<^verbatim>\<open>wrapBounds\<close>, with \<open>minY\<close> the ground height at the agent's
  \<open>(x, z)\<close> plus 10: when the agent's \<open>y\<close> is below \<open>minY\<close> the \<open>y\<close> component of
  its acceleration grows by exactly 0.8 and the other two components stay; when
  it is not below, the acceleration stays as it is. Over ground of height zero an
  agent at \<open>y = 5\<close> gets the 0.8.
\<close>

theorem terrain_floor_bias:
  "(y (position this) < h (x (position this)) (z (position this)) + 10 \<longrightarrow>
      y (acceleration (wrapBounds this bounds h)) = y (acceleration this) + 0.8 \<and>
      x (acceleration (wrapBounds this bounds h)) = x (acceleration this) \<and>
      z (acceleration (wrapBounds this bounds h)) = z (acceleration this)) \<and>
   (\<not> y (position this) < h (x (position this)) (z (position this)) + 10 \<longrightarrow>
      acceleration (wrapBounds this bounds h) = acceleration this) \<and>
   ((\<forall>a c. h a c = 0) \<and> y (position this) = 5 \<longrightarrow>
      y (acceleration (wrapBounds this bounds h)) = y (acceleration this) + 0.8)"
  by (simp add: wrapBounds_def Let_def)

theorem terrain_floor_bias_witness:
  "(\<forall>a c. flat_ground a c = 0) \<and> y (position agent_low) = 5 \<and>
   y (acceleration (wrapBounds agent_low worldBounds flat_ground))
     = y (acceleration agent_low) + 0.8 \<and>
   x (acceleration (wrapBounds agent_low worldBounds flat_ground)) = x (acceleration agent_low) \<and>
   z (acceleration (wrapBounds agent_low worldBounds flat_ground)) = z (acceleration agent_low) \<and>
   \<not> y (position agent0) < flat_ground (x (position agent0)) (z (position agent0)) + 10 \<and>
   acceleration (wrapBounds agent0 worldBounds flat_ground) = acceleration agent0"
proof -
  have h1: "\<forall>a c. flat_ground a c = 0"
    by (simp add: flat_ground_def)
  have h2: "y (position agent_low) = 5"
    by (simp add: agent_defs)
  have h3: "y (position agent_low)
      < flat_ground (x (position agent_low)) (z (position agent_low)) + 10"
    by (simp add: agent_defs flat_ground_def)
  have h4: "\<not> y (position agent0) < flat_ground (x (position agent0)) (z (position agent0)) + 10"
    by (simp add: agent_defs flat_ground_def)
  show ?thesis
    using h1 h2 h3 h4 terrain_floor_bias [of agent_low flat_ground worldBounds]
      terrain_floor_bias [of agent0 flat_ground worldBounds]
    by blast
qed

section \<open>Direction of the separation force\<close>

lemma setLength_along_neg_x:
  assumes "0 < d"
  shows "setLength \<lparr>x = - (1 / d), y = 0, z = 0\<rparr> l = \<lparr>x = - l, y = 0, z = 0\<rparr>"
  using assms by (simp add: vec_defs real_sqrt_divide)

lemma separate_push_x:
  assumes "0 < d"
  shows "divideScalar (normalize (subVectors p (p\<lparr>x := x p + d\<rparr>))) d
         = \<lparr>x = - (1 / d), y = 0, z = 0\<rparr>"
  using assms by (simp add: vec_defs)

lemma distanceTo_along_x:
  assumes "0 < d"
  shows "distanceTo p (p\<lparr>x := x p + d\<rparr>) = d"
  using assms by (simp add: vec_defs)

lemma separate_loop_pair:
  assumes "0 < d" "d < radius"
    and "position other = (position this)\<lparr>x := x (position this) + d\<rparr>"
    and "boids = [this, other] \<or> boids = [other, this]"
  shows "separate_loop this radius boids (Vector3_new, 0)
         = (\<lparr>x = - (1 / d), y = 0, z = 0\<rparr>, 1)"
proof -
  have step: "\<And>rest acc n. separate_loop this radius (other # rest) (acc, n) =
      separate_loop this radius rest (add acc \<lparr>x = - (1 / d), y = 0, z = 0\<rparr>, n + 1)"
    using assms(1,2) by (simp add: assms(3) distanceTo_along_x separate_push_x Let_def)
  have skip: "\<And>rest acc. separate_loop this radius (this # rest) acc
      = separate_loop this radius rest acc"
    by (case_tac acc) (simp add: distanceTo_self)
  have z: "add Vector3_new \<lparr>x = - (1 / d), y = 0, z = 0\<rparr> = \<lparr>x = - (1 / d), y = 0, z = 0\<rparr>"
    by (simp add: add_def Vector3_new_def)
  from assms(4) show ?thesis
  proof
    assume "boids = [this, other]"
    then show ?thesis by (simp add: skip step z del: separate_loop.simps(2))
  next
    assume "boids = [other, this]"
    then show ?thesis by (simp add: skip step z del: separate_loop.simps(2))
  qed
qed

text \<open>
  C9, as the code has it. Two agents lie at distance \<open>d\<close> along the X axis,
  \<open>0 < d < radius\<close>, and the flock is the two of them. \<^verbatim>\<open>separate\<close> steers the
  agent at the lower \<open>x\<close> by the difference between the desired velocity
  \<open>(- maxSpeed, 0, 0)\<close> and its current velocity. The result has a negative X
  component when the agent's velocity has an X component above \<open>- maxSpeed\<close> and
  \<^verbatim>\<open>maxForce\<close> is positive.
\<close>

theorem separation_pushes_away:
  assumes "0 < d" "d < radius"
    and "position other = (position this)\<lparr>x := x (position this) + d\<rparr>"
    and "boids = [this, other] \<or> boids = [other, this]"
    and "0 < maxForce this"
    and "- maxSpeed this < x (velocity this)"
  shows "x (separate this boids radius) < 0"
proof -
  let ?steer = "\<lparr>x = - (1 / d), y = 0, z = 0\<rparr>"
  have lp: "separate_loop this radius boids (Vector3_new, 0) = (?steer, 1)"
    using separate_loop_pair [OF assms(1-4)] .
  have sq: "lengthSq (divideScalar ?steer 1) > 0"
    using assms(1) by (simp add: lengthSq_def divideScalar_def multiplyScalar_def)
  have d1: "divideScalar ?steer 1 = ?steer"
    by (simp add: divideScalar_def multiplyScalar_def)
  have "separate this boids radius =
      clampLength (sub (setLength ?steer (maxSpeed this)) (velocity this)) 0 (maxForce this)"
    using sq by (simp add: separate_def lp Let_def d1)
  moreover have "x (sub (setLength ?steer (maxSpeed this)) (velocity this)) < 0"
    using assms(6) by (simp add: setLength_along_neg_x [OF assms(1)] sub_def)
  ultimately show ?thesis
    using x_clampLength_neg [OF _ assms(5)] by simp
qed

theorem separation_pushes_away_witness:
  "position agent1 = (position agent0)\<lparr>x := x (position agent0) + 5\<rparr> \<and>
   0 < maxForce agent0 \<and> - maxSpeed agent0 < x (velocity agent0) \<and>
   x (separate agent0 [agent0, agent1] 30) < 0"
proof -
  have h1: "(0::real) < 5" and h2: "(5::real) < 30"
    by simp_all
  have h3: "position agent1 = (position agent0)\<lparr>x := x (position agent0) + 5\<rparr>"
    by (simp add: agent_defs)
  have h4: "[agent0, agent1] = [agent0, agent1] \<or> [agent0, agent1] = [agent1, agent0]"
    by simp
  have h5: "0 < maxForce agent0"
    by (simp add: agent_defs)
  have h6: "- maxSpeed agent0 < x (velocity agent0)"
    by (simp add: agent_defs Vector3_new_def)
  show ?thesis
    using h3 h5 h6 separation_pushes_away [OF h1 h2 h3 h4 h5 h6] by blast
qed

text \<open>
  The claim as the specification words it fails for an agent that already moves
  away faster than \<open>maxSpeed\<close>, which the constructor allows before the first
  \<^verbatim>\<open>update\<close>: with velocity \<open>(-5, 0, 0)\<close> and a neighbour 5 units up the X axis
  the separation force has the X component \<open>+0.05\<close>.
\<close>

theorem separation_x_positive_when_fleeing:
  "position agent1 = (position agent_fast)\<lparr>x := x (position agent_fast) + 5\<rparr> \<and>
   x (separate agent_fast [agent_fast, agent1] 30) = 0.05 \<and>
   \<not> x (separate agent_fast [agent_fast, agent1] 30) < 0"
proof -
  have "separate agent_fast [agent_fast, agent1] 30 = \<lparr>x = 1/20, y = 0, z = 0\<rparr>"
    by (simp add: separate_def agent_defs eval_simps)
  then show ?thesis
    by (simp add: agent_defs)
qed

section \<open>The constructor\<close>

text \<open>
  C10, as the code has it. The constructor draws a direction, each component
  \<open>2 r - 1\<close>, and sets its length to \<open>4 r7 + 2\<close>. Unless the three direction draws
  are all exactly \<open>1/2\<close>, the initial speed is \<open>4 r7 + 2\<close>, which lies in
  \<open>[2, 6)\<close> and exceeds \<^verbatim>\<open>maxSpeed = 4\<close> as soon as \<open>r7 > 1/2\<close>: the speed bound
  does not hold at construction.
\<close>

theorem initial_speed_range:
  assumes "0 \<le> r7" "r7 < 1" "\<not> (r4 = 1/2 \<and> r5 = 1/2 \<and> r6 = 1/2)"
  shows "length_v (velocity (Boid_new m r1 r2 r3 r4 r5 r6 r7)) = r7 * 4 + 2 \<and>
         2 \<le> length_v (velocity (Boid_new m r1 r2 r3 r4 r5 r6 r7)) \<and>
         length_v (velocity (Boid_new m r1 r2 r3 r4 r5 r6 r7)) < 6 \<and>
         maxSpeed (Boid_new m r1 r2 r3 r4 r5 r6 r7) = 4 \<and>
         (1/2 < r7 \<longrightarrow> maxSpeed (Boid_new m r1 r2 r3 r4 r5 r6 r7)
                         < length_v (velocity (Boid_new m r1 r2 r3 r4 r5 r6 r7)))"
proof -
  let ?vel = "\<lparr>x = r4 * 2 - 1, y = r5 * 2 - 1, z = r6 * 2 - 1\<rparr>"
  have nz: "?vel \<noteq> Vector3_new"
    using assms(3) by (auto simp: Vector3_new_def)
  have v: "velocity (Boid_new m r1 r2 r3 r4 r5 r6 r7) = setLength ?vel (r7 * 4 + 2)"
    by (simp add: Boid_new_def Let_def)
  have "length_v (velocity (Boid_new m r1 r2 r3 r4 r5 r6 r7)) = r7 * 4 + 2"
    using assms(1) by (simp add: v length_v_setLength [OF nz])
  moreover have "maxSpeed (Boid_new m r1 r2 r3 r4 r5 r6 r7) = 4"
    by (simp add: Boid_new_def Let_def)
  ultimately show ?thesis using assms(1,2) by simp
qed

theorem initial_speed_range_witness:
  "length_v (velocity (Boid_new mesh0 (1/2) (1/2) (1/2) 0 (1/2) (1/2) (3/4))) = 5 \<and>
   maxSpeed (Boid_new mesh0 (1/2) (1/2) (1/2) 0 (1/2) (1/2) (3/4))
     < length_v (velocity (Boid_new mesh0 (1/2) (1/2) (1/2) 0 (1/2) (1/2) (3/4)))"
  using initial_speed_range [of "3/4" 0 "1/2" "1/2" mesh0 "1/2" "1/2" "1/2"] by simp

text \<open>
  The claim as the specification words it fails when the three direction draws
  are all \<open>1/2\<close>: the direction is the zero vector, \<^verbatim>\<open>setLength\<close> leaves it
  zero, and the initial speed is 0, outside \<open>[2, 6)\<close>.
\<close>

theorem initial_speed_zero_direction:
  "velocity (Boid_new mesh0 (1/2) (1/2) (1/2) (1/2) (1/2) (1/2) (3/4)) = Vector3_new \<and>
   length_v (velocity (Boid_new mesh0 (1/2) (1/2) (1/2) (1/2) (1/2) (1/2) (3/4))) = 0 \<and>
   \<not> 2 \<le> length_v (velocity (Boid_new mesh0 (1/2) (1/2) (1/2) (1/2) (1/2) (1/2) (3/4)))"
proof -
  have "\<lparr>x = 1/2 * 2 - 1, y = 1/2 * 2 - 1, z = 1/2 * 2 - 1\<rparr> = Vector3_new"
    by (simp add: Vector3_new_def)
  then have "velocity (Boid_new mesh0 (1/2) (1/2) (1/2) (1/2) (1/2) (1/2) (3/4)) = Vector3_new"
    by (simp add: Boid_new_def Let_def setLength_zero_vec)
  then show ?thesis by (simp add: length_v_zero_vec)
qed


section \<open>Normalising a vector of length zero\<close>

lemma length_chk_Some: "length_chk v = Some (length_v v)"
  by (simp add: length_chk_def sqrt_chk_def length_v_def not_less)

lemma distanceTo_chk_Some: "distanceTo_chk v w = Some (distanceTo v w)"
  by (simp add: distanceTo_chk_def sqrt_chk_def distanceTo_def distanceToSquared_def not_less
      Let_def)

lemma divideScalar_chk_Some: "s \<noteq> 0 \<Longrightarrow> divideScalar_chk v s = Some (divideScalar v s)"
  by (simp add: divideScalar_chk_def divideScalar_def)

lemma js_or_1_nonzero: "js_or l 1 \<noteq> 0"
  by (simp add: js_or_def)

lemma normalize_chk_Some: "normalize_chk v = Some (normalize v)"
  by (simp add: normalize_chk_def normalize_def length_chk_Some divideScalar_chk_Some js_or_1_nonzero)

lemma setLength_chk_Some: "setLength_chk v l = Some (setLength v l)"
  by (simp add: setLength_chk_def setLength_def normalize_chk_Some)

lemma clampLength_chk_Some: "clampLength_chk v mn mx = Some (clampLength v mn mx)"
  by (simp add: clampLength_chk_def clampLength_def length_chk_Some divideScalar_chk_Some
      js_or_1_nonzero Let_def)

lemma separate_loop_chk_Some:
  "separate_loop_chk this radius boids acc = Some (separate_loop this radius boids acc)"
proof (induction boids arbitrary: acc)
  case Nil
  show ?case by (cases acc) simp
next
  case (Cons other boids)
  show ?case
    by (cases acc)
      (simp add: distanceTo_chk_Some normalize_chk_Some divideScalar_chk_Some Cons.IH Let_def)
qed

lemma align_loop_chk_Some:
  "align_loop_chk this radius boids acc = Some (align_loop this radius boids acc)"
proof (induction boids arbitrary: acc)
  case Nil
  show ?case by (cases acc) simp
next
  case (Cons other boids)
  show ?case
    by (cases acc) (simp add: distanceTo_chk_Some Cons.IH Let_def)
qed

lemma cohere_loop_chk_Some:
  "cohere_loop_chk this radius boids acc = Some (cohere_loop this radius boids acc)"
proof (induction boids arbitrary: acc)
  case Nil
  show ?case by (cases acc) simp
next
  case (Cons other boids)
  show ?case
    by (cases acc) (simp add: distanceTo_chk_Some Cons.IH Let_def)
qed

lemma separate_chk_Some: "separate_chk this boids radius = Some (separate this boids radius)"
proof -
  obtain steer count where lp: "separate_loop this radius boids (Vector3_new, 0) = (steer, count)"
    by (cases "separate_loop this radius boids (Vector3_new, 0)")
  show ?thesis
    by (simp add: separate_chk_def separate_def separate_loop_chk_Some lp
        divideScalar_chk_Some setLength_chk_Some clampLength_chk_Some Let_def)
qed

lemma align_chk_Some: "align_chk this boids radius = Some (align this boids radius)"
proof -
  obtain sum_v count where lp: "align_loop this radius boids (Vector3_new, 0) = (sum_v, count)"
    by (cases "align_loop this radius boids (Vector3_new, 0)")
  show ?thesis
    by (simp add: align_chk_def align_def align_loop_chk_Some lp
        divideScalar_chk_Some setLength_chk_Some clampLength_chk_Some Let_def)
qed

lemma seek_chk_Some: "seek_chk this target = Some (seek this target)"
  by (simp add: seek_chk_def seek_def setLength_chk_Some clampLength_chk_Some Let_def)

lemma cohere_chk_Some: "cohere_chk this boids radius = Some (cohere this boids radius)"
proof -
  obtain sum_v count where lp: "cohere_loop this radius boids (Vector3_new, 0) = (sum_v, count)"
    by (cases "cohere_loop this radius boids (Vector3_new, 0)")
  show ?thesis
    by (simp add: cohere_chk_def cohere_def cohere_loop_chk_Some lp
        divideScalar_chk_Some seek_chk_Some Let_def)
qed

lemma flock_chk_Some: "flock_chk this boids ps = Some (flock this boids ps)"
  by (simp add: flock_chk_def flock_def separate_chk_Some align_chk_Some cohere_chk_Some Let_def)

lemma update_chk_Some: "update_chk this delta = Some (update this delta)"
  by (simp add: update_chk_def update_def clampLength_chk_Some Let_def)


lemma div_chk_Some: "b \<noteq> 0 \<Longrightarrow> div_chk a b = Some (a / b)"
  by (simp add: div_chk_def)

lemma sqrt_chk_Some: "0 \<le> a \<Longrightarrow> sqrt_chk a = Some (sqrt a)"
  by (simp add: sqrt_chk_def)

lemma lengthSq_eq_length_v_sq: "lengthSq v = length_v v * length_v v"
  using lengthSq_nonneg [of v] by (simp add: length_v_sqrt_lengthSq)

lemma length_v_normalize: "length_v (normalize v) = (if length_v v = 0 then 0 else 1)"
proof (cases "length_v v = 0")
  case True
  then show ?thesis
    by (simp add: normalize_def divideScalar_def js_or_def length_v_multiplyScalar)
next
  case False
  then have "0 < length_v v" using length_v_nonneg [of v] by simp
  then show ?thesis
    by (simp add: normalize_def divideScalar_def js_or_def length_v_multiplyScalar)
qed

lemma lengthSq_normalize_le_1: "lengthSq (normalize v) \<le> 1"
  by (simp add: lengthSq_eq_length_v_sq length_v_normalize)

lemma square_le_1: "a * a \<le> 1 \<Longrightarrow> a \<le> (1::real)"
proof (rule ccontr)
  assume le: "a * a \<le> 1" and "\<not> a \<le> 1"
  then have "1 < a" by simp
  then have "1 * 1 < a * a" by (intro mult_strict_mono) simp_all
  with le show False by simp
qed

lemma component_le_1:
  assumes "lengthSq v \<le> 1"
  shows "x v \<le> 1" and "y v \<le> 1" and "z v \<le> 1"
proof -
  have sq: "x v * x v + y v * y v + z v * z v \<le> 1"
    using assms by (simp add: lengthSq_def)
  have nn: "0 \<le> x v * x v" "0 \<le> y v * y v" "0 \<le> z v * z v"
    by simp_all
  have b1: "x v * x v \<le> 1" and b2: "y v * y v \<le> 1" and b3: "z v * z v \<le> 1"
    using sq nn by linarith+
  show "x v \<le> 1" by (rule square_le_1 [OF b1])
  show "y v \<le> 1" by (rule square_le_1 [OF b2])
  show "z v \<le> 1" by (rule square_le_1 [OF b3])
qed

lemma y_crossVectors_le_1:
  assumes "lengthSq a \<le> 1" "lengthSq b \<le> 1"
  shows "y (crossVectors a b) \<le> 1"
proof -
  have sa: "x a * x a + y a * y a + z a * z a \<le> 1"
    using assms(1) by (simp add: lengthSq_def)
  have sb: "x b * x b + y b * y b + z b * z b \<le> 1"
    using assms(2) by (simp add: lengthSq_def)
  have nn: "0 \<le> y a * y a" "0 \<le> y b * y b"
    by simp_all
  have s1: "0 \<le> (z a - x b) * (z a - x b)" and s2: "0 \<le> (x a + z b) * (x a + z b)"
    by simp_all
  have "2 * (z a * x b - x a * z b) \<le> z a * z a + x b * x b + x a * x a + z b * z b"
    using s1 s2 by (simp add: algebra_simps)
  then have "2 * (z a * x b - x a * z b) \<le> 2"
    using sa sb nn by linarith
  then show ?thesis
    by (simp add: crossVectors_def)
qed

lemma Matrix4_lookAt_chk_Some:
  "Matrix4_lookAt_chk eye target up_v = Some (Matrix4_lookAt eye target up_v)"
  by (simp add: Matrix4_lookAt_chk_def Matrix4_lookAt_def normalize_chk_Some Let_def)

lemma Matrix4_lookAt_diagonal:
  "m11 (Matrix4_lookAt eye target up_v) \<le> 1 \<and>
   m22 (Matrix4_lookAt eye target up_v) \<le> 1 \<and>
   m33 (Matrix4_lookAt eye target up_v) \<le> 1"
  by (simp add: Matrix4_lookAt_def Let_def component_le_1 y_crossVectors_le_1
      lengthSq_normalize_le_1)

lemma setFromRotationMatrix_chk_Some:
  assumes "m11 m \<le> 1" "m22 m \<le> 1" "m33 m \<le> 1"
  shows "setFromRotationMatrix_chk m = Some (setFromRotationMatrix m)"
proof -
  let ?tr = "m11 m + m22 m + m33 m"
  consider (a) "?tr > 0"
    | (b) "\<not> ?tr > 0" "m11 m > m22 m \<and> m11 m > m33 m"
    | (c) "\<not> ?tr > 0" "\<not> (m11 m > m22 m \<and> m11 m > m33 m)" "m22 m > m33 m"
    | (d) "\<not> ?tr > 0" "\<not> (m11 m > m22 m \<and> m11 m > m33 m)" "\<not> m22 m > m33 m"
    by blast
  then show ?thesis
  proof cases
    case a
    then have "0 < sqrt (?tr + 1)" by simp
    then show ?thesis
      by (simp add: setFromRotationMatrix_chk_def setFromRotationMatrix_def Let_def
          sqrt_chk_def div_chk_def a)
  next
    case b
    then have "0 < 1 + m11 m - m22 m - m33 m" using assms by linarith
    then have "0 < sqrt (1 + m11 m - m22 m - m33 m)" by simp
    then show ?thesis
      by (simp add: setFromRotationMatrix_chk_def setFromRotationMatrix_def Let_def
          sqrt_chk_def div_chk_def b)
  next
    case c
    then have "0 < 1 + m22 m - m11 m - m33 m" using assms by linarith
    then have "0 < sqrt (1 + m22 m - m11 m - m33 m)" by simp
    then show ?thesis
      by (simp add: setFromRotationMatrix_chk_def setFromRotationMatrix_def Let_def
          sqrt_chk_def div_chk_def c)
  next
    case d
    then have "0 < 1 + m33 m - m11 m - m22 m" using assms by linarith
    then have "0 < sqrt (1 + m33 m - m11 m - m22 m)" by simp
    then show ?thesis
      by (simp add: setFromRotationMatrix_chk_def setFromRotationMatrix_def Let_def
          sqrt_chk_def div_chk_def d)
  qed
qed

lemma extractRotation_scene: "extractRotation scene_matrixWorld = scene_matrixWorld"
  by (simp add: extractRotation_def scene_matrixWorld_def length_v_def)

lemma extractRotation_chk_scene:
  "extractRotation_chk scene_matrixWorld = Some (extractRotation scene_matrixWorld)"
  by (simp add: extractRotation_chk_def extractRotation_def scene_matrixWorld_def
      length_chk_Some length_v_def div_chk_def)

lemma lookAt_chk_Some: "lookAt_chk this target = Some (lookAt this target)"
proof -
  have d1: "setFromRotationMatrix_chk (Matrix4_lookAt target (mesh_position this) (up this))
      = Some (setFromRotationMatrix (Matrix4_lookAt target (mesh_position this) (up this)))"
    using Matrix4_lookAt_diagonal [of target "mesh_position this" "up this"]
    by (simp add: setFromRotationMatrix_chk_Some)
  have d2: "setFromRotationMatrix_chk (extractRotation scene_matrixWorld)
      = Some (setFromRotationMatrix (extractRotation scene_matrixWorld))"
    by (rule setFromRotationMatrix_chk_Some)
      (simp_all only: extractRotation_scene, simp_all add: scene_matrixWorld_def)
  show ?thesis
    by (simp add: lookAt_chk_def lookAt_def Matrix4_lookAt_chk_Some d1
        extractRotation_chk_scene d2 Let_def)
qed

lemma updateMesh_chk_Some: "updateMesh_chk this = Some (updateMesh this)"
  by (simp add: updateMesh_chk_def updateMesh_def lookAt_chk_Some Let_def)

lemma animate_boid_chk_Some:
  "animate_boid_chk ps delta h this boids = Some (animate_boid ps delta h this boids)"
  by (simp add: animate_boid_chk_def animate_boid_def flock_chk_Some update_chk_Some
      updateMesh_chk_Some Let_def)

lemma animate_loop_chk_Some:
  "animate_loop_chk ps delta h is boids = Some (animate_loop ps delta h is boids)"
  by (induction "is" arbitrary: boids) (simp_all add: animate_boid_chk_Some)

lemma animate_chk_Some: "animate_chk ps delta h boids = Some (animate ps delta h boids)"
  by (simp add: animate_chk_def animate_def animate_loop_chk_Some)

lemma seek_own_position:
  "seek this (position this) = clampLength (subVectors Vector3_new (velocity this)) 0 (maxForce this)"
proof -
  have "subVectors (position this) (position this) = Vector3_new"
    by (simp add: subVectors_def Vector3_new_def)
  then show ?thesis
    by (simp add: seek_def Let_def setLength_zero_vec)
qed

lemma align_zero_sum:
  assumes "0 < n" "align_loop this radius boids (Vector3_new, 0) = (Vector3_new, n)"
  shows "align this boids radius = clampLength (sub Vector3_new (velocity this)) 0 (maxForce this)"
proof -
  have "divideScalar Vector3_new (real n) = Vector3_new"
    by (simp add: divideScalar_def multiplyScalar_zero_vec)
  then show ?thesis
    using assms(1) by (simp add: align_def assms(2) Let_def setLength_zero_vec)
qed

text \<open>
  Looking at one's own position: \<^verbatim>\<open>_z\<close> is the zero vector, the guard sets it to
  \<open>(0, 0, 1)\<close>, and with the default \<^verbatim>\<open>up\<close> the matrix is the identity.
\<close>

lemma Matrix4_lookAt_same_point:
  "Matrix4_lookAt p p \<lparr>x = 0, y = 1, z = 0\<rparr> = scene_matrixWorld"
proof -
  let ?ex = "\<lparr>x = 1, y = 0, z = 0\<rparr> :: Vector3"
  let ?ey = "\<lparr>x = 0, y = 1, z = 0\<rparr> :: Vector3"
  let ?ez = "\<lparr>x = 0, y = 0, z = 1\<rparr> :: Vector3"
  have z0: "subVectors p p = Vector3_new"
    by (simp add: subVectors_def Vector3_new_def)
  have z1: "lengthSq Vector3_new = 0" "Vector3_new\<lparr>z := 1\<rparr> = ?ez"
    by (simp_all add: lengthSq_def Vector3_new_def)
  have nz: "normalize ?ez = ?ez" and nx: "normalize ?ex = ?ex"
    by (simp_all add: vec_defs)
  have cx: "crossVectors ?ey ?ez = ?ex" and cy: "crossVectors ?ez ?ex = ?ey"
    by (simp_all add: crossVectors_def)
  have lx: "lengthSq ?ex \<noteq> 0"
    by (simp add: lengthSq_def)
  show ?thesis
    by (simp add: Matrix4_lookAt_def Let_def z0 z1 nz nx cx cy lx scene_matrixWorld_def)
qed

lemma setFromRotationMatrix_identity:
  "setFromRotationMatrix scene_matrixWorld = \<lparr>qx = 0, qy = 0, qz = 0, qw = 1\<rparr>"
  by (simp add: setFromRotationMatrix_def scene_matrixWorld_def Let_def)

lemma premultiply_identity:
  "premultiply q (invert \<lparr>qx = 0, qy = 0, qz = 0, qw = 1\<rparr>) = q"
  by (simp add: premultiply_def invert_def multiplyQuaternions_def)

lemma lookAt_own_position:
  assumes "up this = \<lparr>x = 0, y = 1, z = 0\<rparr>"
  shows "quaternion (lookAt this (mesh_position this)) = \<lparr>qx = 0, qy = 0, qz = 0, qw = 1\<rparr>"
  by (simp add: lookAt_def Let_def assms Matrix4_lookAt_same_point extractRotation_scene
      setFromRotationMatrix_identity premultiply_identity)

lemma updateMesh_at_rest:
  assumes "velocity this = Vector3_new" "up (mesh this) = \<lparr>x = 0, y = 1, z = 0\<rparr>"
  shows "quaternion (mesh (updateMesh this)) = \<lparr>qx = 0, qy = 0, qz = 0, qw = 1\<rparr>"
proof -
  have t: "add (position this) (velocity this) = position this"
    by (simp add: assms(1) add_def Vector3_new_def)
  let ?m = "(mesh this)\<lparr>mesh_position := position this\<rparr>"
  have "quaternion (lookAt ?m (mesh_position ?m)) = \<lparr>qx = 0, qy = 0, qz = 0, qw = 1\<rparr>"
    by (rule lookAt_own_position) (simp add: assms(2))
  then show ?thesis
    by (simp add: updateMesh_def Let_def t)
qed

text \<open>
  C5. Normalising a vector of length zero is defined and gives no NaN: the zero
  vector is normalised, and set to any length, to the zero vector, with no
  division by zero. So \<^verbatim>\<open>seek\<close> towards the agent's own position steers by
  the clamped negative of the velocity, and \<^verbatim>\<open>align\<close> over neighbours whose
  velocities sum to zero does the same. Deriving the facing direction of an agent
  at rest, \<^verbatim>\<open>lookAt\<close> is handed the agent's own position, replaces the zero
  direction by \<open>(0, 0, 1)\<close> before normalising it, and for a mesh with the
  default \<^verbatim>\<open>up\<close> leaves the identity quaternion. For every agent, flock, radius
  and target the three rules and \<^verbatim>\<open>seek\<close> return a vector, \<^verbatim>\<open>updateMesh\<close>
  returns an orientation, and one step of an agent and a whole frame return a
  state, with no infinity and no NaN on the way.
\<close>

theorem zero_length_normalisation_defined:
  "normalize_chk Vector3_new = Some Vector3_new \<and>
   setLength_chk Vector3_new l = Some Vector3_new \<and>
   seek_chk this target = Some (seek this target) \<and>
   (target = position this \<longrightarrow>
      seek this target = clampLength (subVectors Vector3_new (velocity this)) 0 (maxForce this)) \<and>
   separate_chk this boids radius = Some (separate this boids radius) \<and>
   align_chk this boids radius = Some (align this boids radius) \<and>
   (\<forall>n. 0 < n \<and> align_loop this radius boids (Vector3_new, 0) = (Vector3_new, n) \<longrightarrow>
      align this boids radius = clampLength (sub Vector3_new (velocity this)) 0 (maxForce this)) \<and>
   cohere_chk this boids radius = Some (cohere this boids radius) \<and>
   updateMesh_chk this = Some (updateMesh this) \<and>
   (velocity this = Vector3_new \<and> up (mesh this) = \<lparr>x = 0, y = 1, z = 0\<rparr> \<longrightarrow>
      quaternion (mesh (updateMesh this)) = \<lparr>qx = 0, qy = 0, qz = 0, qw = 1\<rparr>) \<and>
   animate_boid_chk ps delta h this boids = Some (animate_boid ps delta h this boids) \<and>
   animate_chk ps delta h boids = Some (animate ps delta h boids)"
proof -
  have e1: "normalize_chk Vector3_new = Some Vector3_new"
    by (simp add: normalize_chk_Some normalize_zero_vec)
  have e2: "setLength_chk Vector3_new l = Some Vector3_new"
    by (simp add: setLength_chk_Some setLength_zero_vec)
  have sk: "target = position this \<longrightarrow>
      seek this target = clampLength (subVectors Vector3_new (velocity this)) 0 (maxForce this)"
    using seek_own_position [of this] by simp
  have al: "\<forall>n. 0 < n \<and> align_loop this radius boids (Vector3_new, 0) = (Vector3_new, n) \<longrightarrow>
      align this boids radius = clampLength (sub Vector3_new (velocity this)) 0 (maxForce this)"
    using align_zero_sum [of _ this radius boids] by blast
  have facing: "velocity this = Vector3_new \<and> up (mesh this) = \<lparr>x = 0, y = 1, z = 0\<rparr> \<longrightarrow>
      quaternion (mesh (updateMesh this)) = \<lparr>qx = 0, qy = 0, qz = 0, qw = 1\<rparr>"
    using updateMesh_at_rest [of this] by blast
  from e1 e2 sk al facing seek_chk_Some [of this target] separate_chk_Some [of this boids radius]
    align_chk_Some [of this boids radius] cohere_chk_Some [of this boids radius]
    updateMesh_chk_Some [of this]
    animate_boid_chk_Some [of ps delta h this boids] animate_chk_Some [of ps delta h boids]
  show ?thesis by blast
qed

lemma align_loop_agent_fast:
  "align_loop agent_fast 30 [agent_fast, agent1, agent3] (Vector3_new, 0) = (Vector3_new, 2)"
  by (simp add: agent_defs eval_simps)

text \<open>
  An agent that moves: \<open>agent1\<close> flies along the X axis, and \<^verbatim>\<open>updateMesh\<close>
  turns its mesh by a quarter turn about the Y axis, from facing \<open>+Z\<close> to
  facing \<open>+X\<close>.
\<close>

lemma Matrix4_lookAt_agent1:
  "Matrix4_lookAt \<lparr>x = 9, y = 50, z = 0\<rparr> \<lparr>x = 5, y = 50, z = 0\<rparr> \<lparr>x = 0, y = 1, z = 0\<rparr>
   = \<lparr>m11 = 0, m12 = 0, m13 = 1, m21 = 0, m22 = 1, m23 = 0, m31 = - 1, m32 = 0, m33 = 0\<rparr>"
proof -
  let ?ex = "\<lparr>x = 1, y = 0, z = 0\<rparr> :: Vector3"
  let ?ey = "\<lparr>x = 0, y = 1, z = 0\<rparr> :: Vector3"
  let ?mz = "\<lparr>x = 0, y = 0, z = - 1\<rparr> :: Vector3"
  have z0: "subVectors \<lparr>x = 9, y = 50, z = 0\<rparr> \<lparr>x = 5, y = 50, z = 0\<rparr> = \<lparr>x = 4, y = 0, z = 0\<rparr>"
    by (simp add: subVectors_def)
  have z1: "lengthSq \<lparr>x = 4, y = 0, z = 0\<rparr> \<noteq> 0"
    by (simp add: lengthSq_def)
  have nz: "normalize \<lparr>x = 4, y = 0, z = 0\<rparr> = ?ex" and nx: "normalize ?mz = ?mz"
    by (simp_all add: eval_simps)
  have cx: "crossVectors ?ey ?ex = ?mz" and cy: "crossVectors ?ex ?mz = ?ey"
    by (simp_all add: crossVectors_def)
  have lx: "lengthSq ?mz \<noteq> 0"
    by (simp add: lengthSq_def)
  show ?thesis
    by (simp add: Matrix4_lookAt_def Let_def z0 z1 nz nx cx cy lx)
qed

lemma quaternion_agent1:
  "quaternion (mesh (updateMesh agent1))
   = \<lparr>qx = 0, qy = 1 / sqrt 2, qz = 0, qw = sqrt 2 / 2\<rparr>"
proof -
  have t: "add \<lparr>x = 5, y = 50, z = 0\<rparr> (velocity agent1) = \<lparr>x = 9, y = 50, z = 0\<rparr>"
    by (simp add: agent_defs add_def)
  have p: "position agent1 = \<lparr>x = 5, y = 50, z = 0\<rparr>" and u: "up (mesh agent1) = \<lparr>x = 0, y = 1, z = 0\<rparr>"
    by (simp_all add: agent_defs)
  have q: "setFromRotationMatrix
      \<lparr>m11 = 0, m12 = 0, m13 = 1, m21 = 0, m22 = 1, m23 = 0, m31 = - 1, m32 = 0, m33 = 0\<rparr>
      = \<lparr>qx = 0, qy = 1 / sqrt 2, qz = 0, qw = sqrt 2 / 2\<rparr>"
    by (simp add: setFromRotationMatrix_def Let_def)
  show ?thesis
    by (simp add: updateMesh_def lookAt_def Let_def t p u Matrix4_lookAt_agent1 q
        extractRotation_scene setFromRotationMatrix_identity premultiply_identity)
qed

theorem zero_length_normalisation_defined_witness:
  "seek agent1 (position agent1) = \<lparr>x = - 0.05, y = 0, z = 0\<rparr> \<and>
   align_loop agent_fast 30 [agent_fast, agent1, agent3] (Vector3_new, 0) = (Vector3_new, 2) \<and>
   align agent_fast [agent_fast, agent1, agent3] 30 = \<lparr>x = 0.05, y = 0, z = 0\<rparr> \<and>
   velocity agent0 = Vector3_new \<and>
   up (mesh agent0) = \<lparr>x = 0, y = 1, z = 0\<rparr> \<and>
   quaternion (mesh (updateMesh agent0)) = \<lparr>qx = 0, qy = 0, qz = 0, qw = 1\<rparr> \<and>
   updateMesh_chk agent0 = Some (updateMesh agent0) \<and>
   quaternion (mesh (updateMesh agent1)) = \<lparr>qx = 0, qy = 1 / sqrt 2, qz = 0, qw = sqrt 2 / 2\<rparr> \<and>
   animate_chk params_main (1/10) flat_ground [agent_fast, agent1, agent3]
     = Some (animate params_main (1/10) flat_ground [agent_fast, agent1, agent3])"
proof -
  have c1: "clampLength (subVectors Vector3_new (velocity agent1)) 0 (maxForce agent1)
      = \<lparr>x = - 0.05, y = 0, z = 0\<rparr>"
    by (simp add: agent_defs eval_simps)
  have c2: "clampLength (sub Vector3_new (velocity agent_fast)) 0 (maxForce agent_fast)
      = \<lparr>x = 0.05, y = 0, z = 0\<rparr>"
    by (simp add: agent_defs eval_simps)
  have v0: "velocity agent0 = Vector3_new"
    by (simp add: agent_defs)
  have u0: "up (mesh agent0) = \<lparr>x = 0, y = 1, z = 0\<rparr>"
    by (simp add: agent_defs)
  note t1 = zero_length_normalisation_defined
    [of 1 agent1 "position agent1" "[agent1]" 30 params_main "1/10" flat_ground]
  note t2 = zero_length_normalisation_defined
    [of 1 agent_fast "position agent_fast" "[agent_fast, agent1, agent3]" 30 params_main "1/10" flat_ground]
  note t3 = zero_length_normalisation_defined
    [of 1 agent0 "position agent0" "[agent0]" 30 params_main "1/10" flat_ground]
  have s1: "seek agent1 (position agent1) = \<lparr>x = - 0.05, y = 0, z = 0\<rparr>"
    using t1 c1 by simp
  have s2: "align agent_fast [agent_fast, agent1, agent3] 30 = \<lparr>x = 0.05, y = 0, z = 0\<rparr>"
    using t2 c2 align_loop_agent_fast by simp
  have s3: "quaternion (mesh (updateMesh agent0)) = \<lparr>qx = 0, qy = 0, qz = 0, qw = 1\<rparr>"
    using t3 v0 u0 by blast
  have s4: "updateMesh_chk agent0 = Some (updateMesh agent0)"
    using t3 by blast
  have s5: "animate_chk params_main (1/10) flat_ground [agent_fast, agent1, agent3]
     = Some (animate params_main (1/10) flat_ground [agent_fast, agent1, agent3])"
    using t2 by blast
  show ?thesis
    using s1 s2 s3 s4 s5 v0 u0 align_loop_agent_fast quaternion_agent1 by blast
qed

end
